theory Spec2Isabelle
  imports Main "HOL-Library.Sublist"
begin

section \<open>Data model\<close>

text \<open>
  The object built by \<open>IceQuiverAll.__init__\<close>: the seven attributes the constructor
  assigns. Paths are strings; \<open>report_fn\<close> and \<open>summary_fn\<close> default to Python's
  \<open>None\<close>. The two option bundles are references to objects of classes that live in
  other modules, so their types are parameters.
\<close>

record ('sge, 'ipq) IceQuiverAll =
  root_dir :: string
  bas_fofn :: string
  fasta_fofn :: string
  report_fn :: "string option"
  summary_fn :: "string option"
  sge_opts :: 'sge
  ipq_opts :: 'ipq

text \<open>
  The collaborators (\<open>IceQuiver\<close>, \<open>IceQuiverPostprocess\<close>, the option bundles) are
  imported from other modules. Each of their operations is a parameter: it runs on the
  world outside this object (file system, cluster, the option objects' own attributes)
  and either returns a value or raises, \<open>Inl\<close> being the raised exception.
\<close>

record ('w, 'e, 'sge, 'ipq, 'iq, 'pq) collaborators =
  IceQuiver_init :: "string \<Rightarrow> string \<Rightarrow> string \<Rightarrow> 'sge \<Rightarrow> 'w \<Rightarrow> ('e + 'iq) \<times> 'w"
  IceQuiver_validate_inputs :: "'iq \<Rightarrow> 'w \<Rightarrow> ('e + unit) \<times> 'w"
  IceQuiver_run :: "'iq \<Rightarrow> 'w \<Rightarrow> ('e + unit) \<times> 'w"
  use_sge :: "'sge \<Rightarrow> 'w \<Rightarrow> bool"
  IceQuiverPostprocess_init :: "string \<Rightarrow> bool \<Rightarrow> bool \<Rightarrow> 'ipq \<Rightarrow> 'w \<Rightarrow> ('e + 'pq) \<times> 'w"
  IceQuiverPostprocess_run :: "'pq \<Rightarrow> 'w \<Rightarrow> ('e + unit) \<times> 'w"
  sge_cmd_str :: "'sge \<Rightarrow> bool \<Rightarrow> bool \<Rightarrow> 'w \<Rightarrow> ('e + string) \<times> 'w"
  ipq_cmd_str :: "'ipq \<Rightarrow> 'w \<Rightarrow> ('e + string) \<times> 'w"

text \<open>
  Every call into a collaborator is logged with its arguments and with how it ended.
  Calls are synchronous and made one after the other, so the order of the log is the
  order of the calls.
\<close>

datatype ('sge, 'ipq, 'iq, 'pq) call =
  New_IceQuiver string string string 'sge
| Validate_inputs 'iq
| Run_IceQuiver 'iq
| New_IceQuiverPostprocess string bool bool 'ipq
| Run_IceQuiverPostprocess 'pq
| Sge_cmd_str 'sge bool bool
| Ipq_cmd_str 'ipq

datatype 'e outcome = Returned | Raised 'e

fun outcome_of :: "'e + 'a \<Rightarrow> 'e outcome" where
  "outcome_of (Inl e) = Raised e"
| "outcome_of (Inr a) = Returned"

text \<open>
  The program state: the \<open>IceQuiverAll\<close> object (\<open>self\<close>), the world the
  collaborators act on, and the log of collaborator calls.
\<close>

record ('w, 'e, 'sge, 'ipq, 'iq, 'pq) state =
  this :: "('sge, 'ipq) IceQuiverAll"
  world :: 'w
  trace :: "(('sge, 'ipq, 'iq, 'pq) call \<times> 'e outcome) list"

section \<open>Statements that may raise\<close>

definition bind_exn ::
  "('s \<Rightarrow> ('e + 'a) \<times> 's) \<Rightarrow> ('a \<Rightarrow> 's \<Rightarrow> ('e + 'b) \<times> 's) \<Rightarrow> 's \<Rightarrow> ('e + 'b) \<times> 's" where
  "bind_exn m f s = (case m s of (Inl e, s') \<Rightarrow> (Inl e, s') | (Inr a, s') \<Rightarrow> f a s')"

definition return_exn :: "'a \<Rightarrow> 's \<Rightarrow> ('e + 'a) \<times> 's" where
  "return_exn a s = (Inr a, s)"

text \<open>
  A collaborator call: it gets the world only (never \<open>self\<close>), and the call is logged.
\<close>

definition call ::
  "('sge, 'ipq, 'iq, 'pq) call \<Rightarrow> ('w \<Rightarrow> ('e + 'a) \<times> 'w) \<Rightarrow>
   ('w, 'e, 'sge, 'ipq, 'iq, 'pq) state \<Rightarrow> ('e + 'a) \<times> ('w, 'e, 'sge, 'ipq, 'iq, 'pq) state" where
  "call c f s =
     (case f (world s) of
        (r, w') \<Rightarrow> (r, s\<lparr>world := w', trace := trace s @ [(c, outcome_of r)]\<rparr>))"

section \<open>The class \<open>IceQuiverAll\<close>\<close>

definition prog :: string where
  "prog = ''ice_quiver.py all ''"

text \<open>
  \<open>__init__\<close>: \<open>prog_name\<close> is replaced by a default when it is \<open>None\<close> and then
  dropped; the other arguments are stored.
\<close>

definition IceQuiverAll_init ::
  "string \<Rightarrow> string \<Rightarrow> string \<Rightarrow> 'sge \<Rightarrow> 'ipq \<Rightarrow> string option \<Rightarrow> string option \<Rightarrow>
   string option \<Rightarrow> ('sge, 'ipq) IceQuiverAll" where
  "IceQuiverAll_init root_dir' bas_fofn' fasta_fofn' sge_opts' ipq_opts' report_fn' summary_fn'
     prog_name =
     (let prog_name' = (case prog_name of Some p \<Rightarrow> p | None \<Rightarrow> ''IceQuiverAll'')
      in \<lparr>root_dir = root_dir', bas_fofn = bas_fofn', fasta_fofn = fasta_fofn',
          report_fn = report_fn', summary_fn = summary_fn',
          sge_opts = sge_opts', ipq_opts = ipq_opts'\<rparr>)"

text \<open>
  \<open>_cmd_str\<close>: \<open>"{d} ".format(d=x)\<close> on a string \<open>x\<close> is \<open>x\<close> followed by a space.
  The string is built left to right; the SGE options are serialised before the HQ/LQ
  options, and an exception of the first prevents the second call.
\<close>

definition cmd_str_impl ::
  "('w, 'e, 'sge, 'ipq, 'iq, 'pq) collaborators \<Rightarrow>
   string \<Rightarrow> string \<Rightarrow> string \<Rightarrow> 'sge \<Rightarrow> 'ipq \<Rightarrow> string option \<Rightarrow> string option \<Rightarrow>
   ('w, 'e, 'sge, 'ipq, 'iq, 'pq) state \<Rightarrow> ('e + string) \<times> ('w, 'e, 'sge, 'ipq, 'iq, 'pq) state" where
  "cmd_str_impl C root_dir' bas_fofn' fasta_fofn' sge_opts' ipq_opts' report_fn' summary_fn' =
     (let cmd0 = prog @
                 (root_dir' @ '' '') @
                 (''--bas_fofn='' @ bas_fofn' @ '' '') @
                 (''--fasta_fofn='' @ fasta_fofn' @ '' '');
          cmd1 = (case report_fn' of None \<Rightarrow> cmd0
                  | Some f \<Rightarrow> cmd0 @ (''--report='' @ f @ '' ''));
          cmd2 = (case summary_fn' of None \<Rightarrow> cmd1
                  | Some f \<Rightarrow> cmd1 @ (''--summary='' @ f @ '' ''))
      in bind_exn (call (Sge_cmd_str sge_opts' True True) (sge_cmd_str C sge_opts' True True))
           (\<lambda>sge_str.
         bind_exn (call (Ipq_cmd_str ipq_opts') (ipq_cmd_str C ipq_opts'))
           (\<lambda>ipq_str.
         return_exn ((cmd2 @ sge_str) @ ipq_str))))"

definition cmd_str ::
  "('w, 'e, 'sge, 'ipq, 'iq, 'pq) collaborators \<Rightarrow>
   ('w, 'e, 'sge, 'ipq, 'iq, 'pq) state \<Rightarrow> ('e + string) \<times> ('w, 'e, 'sge, 'ipq, 'iq, 'pq) state" where
  "cmd_str C s =
     cmd_str_impl C (root_dir (this s)) (bas_fofn (this s)) (fasta_fofn (this s))
       (sge_opts (this s)) (ipq_opts (this s)) (report_fn (this s)) (summary_fn (this s)) s"

text \<open>
  \<open>run\<close>: five collaborator calls in sequence. Each statement reads the attributes of
  \<open>self\<close> when it is executed; \<open>self.sge_opts.use_sge\<close> is read after the polishing
  stage has returned.
\<close>

definition run ::
  "('w, 'e, 'sge, 'ipq, 'iq, 'pq) collaborators \<Rightarrow>
   ('w, 'e, 'sge, 'ipq, 'iq, 'pq) state \<Rightarrow> ('e + unit) \<times> ('w, 'e, 'sge, 'ipq, 'iq, 'pq) state" where
  "run C =
     bind_exn (\<lambda>s. call (New_IceQuiver (root_dir (this s)) (bas_fofn (this s))
                          (fasta_fofn (this s)) (sge_opts (this s)))
                        (IceQuiver_init C (root_dir (this s)) (bas_fofn (this s))
                          (fasta_fofn (this s)) (sge_opts (this s))) s)
       (\<lambda>iceq.
     bind_exn (call (Validate_inputs iceq) (IceQuiver_validate_inputs C iceq))
       (\<lambda>_.
     bind_exn (call (Run_IceQuiver iceq) (IceQuiver_run C iceq))
       (\<lambda>_.
     bind_exn (\<lambda>s. call (New_IceQuiverPostprocess (root_dir (this s))
                          (use_sge C (sge_opts (this s)) (world s)) False (ipq_opts (this s)))
                        (IceQuiverPostprocess_init C (root_dir (this s))
                          (use_sge C (sge_opts (this s)) (world s)) False (ipq_opts (this s))) s)
       (\<lambda>icepq.
     call (Run_IceQuiverPostprocess icepq) (IceQuiverPostprocess_run C icepq)))))"


section \<open>Notions used to state the properties\<close>

text \<open>Stage 2 is the post-processing collaborator: its construction and its run.\<close>

fun is_stage2 :: "('sge, 'ipq, 'iq, 'pq) call \<Rightarrow> bool" where
  "is_stage2 (New_IceQuiverPostprocess _ _ _ _) = True"
| "is_stage2 (Run_IceQuiverPostprocess _) = True"
| "is_stage2 _ = False"

text \<open>The first call of \<open>run\<close>, with the arguments read from \<open>self\<close>.\<close>

definition new_iq :: "('w, 'e, 'sge, 'ipq, 'iq, 'pq) state \<Rightarrow> ('sge, 'ipq, 'iq, 'pq) call" where
  "new_iq s = New_IceQuiver (root_dir (this s)) (bas_fofn (this s)) (fasta_fofn (this s)) (sge_opts (this s))"

text \<open>
  The part of the command string that is always present, and an optional flag; used to
  state lemmas about the string's layout.
\<close>

definition cmd_prefix :: "('sge, 'ipq) IceQuiverAll \<Rightarrow> string" where
  "cmd_prefix self =
     ''ice_quiver.py all '' @ root_dir self @ '' '' @
     ''--bas_fofn='' @ bas_fofn self @ '' '' @
     ''--fasta_fofn='' @ fasta_fofn self @ '' ''"

definition flag :: "string \<Rightarrow> string option \<Rightarrow> string" where
  "flag name v = (case v of None \<Rightarrow> [] | Some f \<Rightarrow> name @ f @ '' '')"

text \<open>
  The number of positions of a string at which a given text starts. The flag texts
  \<open>--report=\<close> and \<open>--summary=\<close> cannot overlap themselves, so for them this is also
  what Python's \<open>str.count\<close> returns. A string contains a text (Python's \<open>in\<close>) when
  \<^const>\<open>sublist\<close> holds, that is, when the number of occurrences is not zero.
\<close>

fun occurrences :: "'a list \<Rightarrow> 'a list \<Rightarrow> nat" where
  "occurrences pat [] = (if pat = [] then 1 else 0)"
| "occurrences pat (c # cs) = (if prefix pat (c # cs) then 1 else 0) + occurrences pat cs"

text \<open>A string that contains neither flag text.\<close>

definition no_flag_text :: "string \<Rightarrow> bool" where
  "no_flag_text x \<longleftrightarrow> \<not> sublist ''--report='' x \<and> \<not> sublist ''--summary='' x"

section \<open>A concrete set of collaborators\<close>

text \<open>
  Small stand-ins on which the operations can be evaluated. The world is the list of
  files and tools present: validation needs the bas fofn, polishing needs \<open>quiver\<close>
  and writes \<open>polished\<close>, post-processing needs \<open>polished\<close> and writes \<open>hq_lq\<close>.
  The HQ/LQ options are represented by their serialisation.
\<close>

definition example_collaborators ::
  "(string list, string, bool, string, string, string) collaborators" where
  "example_collaborators =
     \<lparr>IceQuiver_init = (\<lambda>rd bf ff sg w. (Inr bf, w)),
      IceQuiver_validate_inputs =
        (\<lambda>iq w. if iq \<in> set w then (Inr (), w) else (Inl ''missing input'', w)),
      IceQuiver_run =
        (\<lambda>iq w. if ''quiver'' \<in> set w then (Inr (), ''polished'' # w)
                 else (Inl ''polishing failed'', w)),
      use_sge = (\<lambda>sg w. sg),
      IceQuiverPostprocess_init = (\<lambda>rd us q ip w. (Inr rd, w)),
      IceQuiverPostprocess_run =
        (\<lambda>pq w. if ''polished'' \<in> set w then (Inr (), ''hq_lq'' # w)
                 else (Inl ''nothing to classify'', w)),
      sge_cmd_str =
        (\<lambda>sg b q w. (Inr ((if sg then ''--use_sge '' else []) @
                            (if b then ''--blasr_nproc=4 '' else []) @
                            (if q then ''--quiver_nproc=8 '' else [])), w)),
      ipq_cmd_str = (\<lambda>ip w. (Inr ip, w))\<rparr>"

definition example_object :: "(bool, string) IceQuiverAll" where
  "example_object =
     IceQuiverAll_init ''/out'' ''bas.fofn'' ''fa.fofn'' True ''--hq_quiver_min_accuracy=0.99 ''
       None None None"

definition example_object_full :: "(bool, string) IceQuiverAll" where
  "example_object_full =
     IceQuiverAll_init ''/out'' ''bas.fofn'' ''fa.fofn'' False ''--hq_quiver_min_accuracy=0.99 ''
       (Some ''report.txt'') (Some ''summary.txt'') (Some ''ice_quiver_all'')"

definition start :: "(bool, string) IceQuiverAll \<Rightarrow> string list \<Rightarrow>
    (string list, string, bool, string, string, string) state" where
  "start obj w = \<lparr>this = obj, world = w, trace = []\<rparr>"

section \<open>The call sequence of \<open>run\<close>\<close>

lemma run_unfold:
  "run C s =
    (case IceQuiver_init C (root_dir (this s)) (bas_fofn (this s)) (fasta_fofn (this s))
            (sge_opts (this s)) (world s) of
       (Inl e, w1) \<Rightarrow>
         (Inl e, s\<lparr>world := w1, trace := trace s @
            [(New_IceQuiver (root_dir (this s)) (bas_fofn (this s)) (fasta_fofn (this s))
                (sge_opts (this s)), Raised e)]\<rparr>)
     | (Inr iq, w1) \<Rightarrow>
    (case IceQuiver_validate_inputs C iq w1 of
       (Inl e, w2) \<Rightarrow>
         (Inl e, s\<lparr>world := w2, trace := trace s @
            [(New_IceQuiver (root_dir (this s)) (bas_fofn (this s)) (fasta_fofn (this s))
                (sge_opts (this s)), Returned),
             (Validate_inputs iq, Raised e)]\<rparr>)
     | (Inr _, w2) \<Rightarrow>
    (case IceQuiver_run C iq w2 of
       (Inl e, w3) \<Rightarrow>
         (Inl e, s\<lparr>world := w3, trace := trace s @
            [(New_IceQuiver (root_dir (this s)) (bas_fofn (this s)) (fasta_fofn (this s))
                (sge_opts (this s)), Returned),
             (Validate_inputs iq, Returned),
             (Run_IceQuiver iq, Raised e)]\<rparr>)
     | (Inr _, w3) \<Rightarrow>
    (case IceQuiverPostprocess_init C (root_dir (this s)) (use_sge C (sge_opts (this s)) w3)
            False (ipq_opts (this s)) w3 of
       (Inl e, w4) \<Rightarrow>
         (Inl e, s\<lparr>world := w4, trace := trace s @
            [(New_IceQuiver (root_dir (this s)) (bas_fofn (this s)) (fasta_fofn (this s))
                (sge_opts (this s)), Returned),
             (Validate_inputs iq, Returned),
             (Run_IceQuiver iq, Returned),
             (New_IceQuiverPostprocess (root_dir (this s)) (use_sge C (sge_opts (this s)) w3)
                False (ipq_opts (this s)), Raised e)]\<rparr>)
     | (Inr pq, w4) \<Rightarrow>
    (case IceQuiverPostprocess_run C pq w4 of
       (r, w5) \<Rightarrow>
         (r, s\<lparr>world := w5, trace := trace s @
            [(New_IceQuiver (root_dir (this s)) (bas_fofn (this s)) (fasta_fofn (this s))
                (sge_opts (this s)), Returned),
             (Validate_inputs iq, Returned),
             (Run_IceQuiver iq, Returned),
             (New_IceQuiverPostprocess (root_dir (this s)) (use_sge C (sge_opts (this s)) w3)
                False (ipq_opts (this s)), Returned),
             (Run_IceQuiverPostprocess pq, outcome_of r)]\<rparr>))))))"
  by (simp add: run_def bind_exn_def call_def split: prod.splits sum.splits)

lemma run_shape:
  assumes "run C s = (r, s')"
  shows "\<exists>evs iq u pq e. trace s' = trace s @ evs \<and>
    (evs = [(new_iq s, Raised e)] \<and> r = Inl e \<or>
     evs = [(new_iq s, Returned), (Validate_inputs iq, Raised e)] \<and> r = Inl e \<or>
     evs = [(new_iq s, Returned), (Validate_inputs iq, Returned), (Run_IceQuiver iq, Raised e)] \<and> r = Inl e \<or>
     evs = [(new_iq s, Returned), (Validate_inputs iq, Returned), (Run_IceQuiver iq, Returned),
        (New_IceQuiverPostprocess (root_dir (this s)) u False (ipq_opts (this s)), Raised e)] \<and> r = Inl e \<or>
     evs = [(new_iq s, Returned), (Validate_inputs iq, Returned), (Run_IceQuiver iq, Returned),
        (New_IceQuiverPostprocess (root_dir (this s)) u False (ipq_opts (this s)), Returned),
        (Run_IceQuiverPostprocess pq, outcome_of r)])"
  using assms unfolding run_unfold new_iq_def
  by (auto split: prod.splits sum.splits)

text \<open>
  C1. \<open>run\<close> always constructs the polishing collaborator first. On the object the
  constructor returns it calls \<open>validate_inputs\<close>, and when that returns it calls the
  polishing \<open>run\<close> on the same object as the next call: validation is called, and it is
  called before the polishing run. If \<open>validate_inputs\<close> raises, \<open>run\<close> raises the same
  exception and the log ends with that call; if the polishing run raises, likewise: in
  both cases no stage-2 call (construction or run of the post-processing collaborator) is
  made. When the polishing run returns, stage 2 starts as the fourth call and not
  earlier. In every log, a polishing run is preceded by a \<open>validate_inputs\<close> on the same
  object that returned, and a stage-2 call by a polishing run that returned.
\<close>

theorem run_stage_order:
  assumes "run C s = (r, s')"
  shows "\<exists>evs. trace s' = trace s @ evs \<and>
     evs \<noteq> [] \<and>
     fst (hd evs) = New_IceQuiver (root_dir (this s)) (bas_fofn (this s)) (fasta_fofn (this s))
                      (sge_opts (this s)) \<and>
     (\<forall>iq w1.
        IceQuiver_init C (root_dir (this s)) (bas_fofn (this s)) (fasta_fofn (this s))
          (sge_opts (this s)) (world s) = (Inr iq, w1) \<longrightarrow>
        2 \<le> length evs \<and>
        evs ! 1 = (Validate_inputs iq, outcome_of (fst (IceQuiver_validate_inputs C iq w1)))) \<and>
     (\<forall>iq w1 w2.
        IceQuiver_init C (root_dir (this s)) (bas_fofn (this s)) (fasta_fofn (this s))
          (sge_opts (this s)) (world s) = (Inr iq, w1) \<and>
        IceQuiver_validate_inputs C iq w1 = (Inr (), w2) \<longrightarrow>
        3 \<le> length evs \<and>
        evs ! 1 = (Validate_inputs iq, Returned) \<and>
        evs ! 2 = (Run_IceQuiver iq, outcome_of (fst (IceQuiver_run C iq w2)))) \<and>
     (\<forall>iq w1 e w2.
        IceQuiver_init C (root_dir (this s)) (bas_fofn (this s)) (fasta_fofn (this s))
          (sge_opts (this s)) (world s) = (Inr iq, w1) \<and>
        IceQuiver_validate_inputs C iq w1 = (Inl e, w2) \<longrightarrow>
        r = Inl e \<and>
        evs = [(New_IceQuiver (root_dir (this s)) (bas_fofn (this s)) (fasta_fofn (this s))
                  (sge_opts (this s)), Returned),
               (Validate_inputs iq, Raised e)]) \<and>
     (\<forall>iq w1 w2 e w3.
        IceQuiver_init C (root_dir (this s)) (bas_fofn (this s)) (fasta_fofn (this s))
          (sge_opts (this s)) (world s) = (Inr iq, w1) \<and>
        IceQuiver_validate_inputs C iq w1 = (Inr (), w2) \<and>
        IceQuiver_run C iq w2 = (Inl e, w3) \<longrightarrow>
        r = Inl e \<and>
        evs = [(New_IceQuiver (root_dir (this s)) (bas_fofn (this s)) (fasta_fofn (this s))
                  (sge_opts (this s)), Returned),
               (Validate_inputs iq, Returned),
               (Run_IceQuiver iq, Raised e)]) \<and>
     (\<forall>iq w1 w2 w3.
        IceQuiver_init C (root_dir (this s)) (bas_fofn (this s)) (fasta_fofn (this s))
          (sge_opts (this s)) (world s) = (Inr iq, w1) \<and>
        IceQuiver_validate_inputs C iq w1 = (Inr (), w2) \<and>
        IceQuiver_run C iq w2 = (Inr (), w3) \<longrightarrow>
        4 \<le> length evs \<and>
        evs ! 2 = (Run_IceQuiver iq, Returned) \<and>
        is_stage2 (fst (evs ! 3)) \<and>
        (\<forall>j<3. \<not> is_stage2 (fst (evs ! j)))) \<and>
     (\<forall>j<length evs. \<forall>iq out. evs ! j = (Run_IceQuiver iq, out) \<longrightarrow>
        (\<exists>i<j. evs ! i = (Validate_inputs iq, Returned))) \<and>
     ((\<exists>iq e. (Validate_inputs iq, Raised e) \<in> set evs) \<or>
      (\<exists>iq e. (Run_IceQuiver iq, Raised e) \<in> set evs) \<longrightarrow>
        (\<forall>c out. (c, out) \<in> set evs \<longrightarrow> \<not> is_stage2 c)) \<and>
     (\<forall>j<length evs. is_stage2 (fst (evs ! j)) \<longrightarrow>
        (\<exists>i<j. \<exists>iq. evs ! i = (Run_IceQuiver iq, Returned)))"
proof -
  from run_shape[OF assms] obtain evs iq u pq e where
    tr: "trace s' = trace s @ evs" and
    sh: "evs = [(new_iq s, Raised e)] \<and> r = Inl e \<or>
     evs = [(new_iq s, Returned), (Validate_inputs iq, Raised e)] \<and> r = Inl e \<or>
     evs = [(new_iq s, Returned), (Validate_inputs iq, Returned), (Run_IceQuiver iq, Raised e)] \<and> r = Inl e \<or>
     evs = [(new_iq s, Returned), (Validate_inputs iq, Returned), (Run_IceQuiver iq, Returned),
        (New_IceQuiverPostprocess (root_dir (this s)) u False (ipq_opts (this s)), Raised e)] \<and> r = Inl e \<or>
     evs = [(new_iq s, Returned), (Validate_inputs iq, Returned), (Run_IceQuiver iq, Returned),
        (New_IceQuiverPostprocess (root_dir (this s)) u False (ipq_opts (this s)), Returned),
        (Run_IceQuiverPostprocess pq, outcome_of r)]"
    by blast
  have 0: "evs \<noteq> [] \<and>
     fst (hd evs) = New_IceQuiver (root_dir (this s)) (bas_fofn (this s)) (fasta_fofn (this s))
                      (sge_opts (this s))"
    using sh by (elim disjE exE conjE) (auto simp: new_iq_def)
  have a: "\<forall>iq w1.
        IceQuiver_init C (root_dir (this s)) (bas_fofn (this s)) (fasta_fofn (this s))
          (sge_opts (this s)) (world s) = (Inr iq, w1) \<longrightarrow>
        2 \<le> length evs \<and>
        evs ! 1 = (Validate_inputs iq, outcome_of (fst (IceQuiver_validate_inputs C iq w1)))"
    using assms tr by (auto simp: run_unfold split: prod.splits sum.splits)
  have b: "\<forall>iq w1 w2.
        IceQuiver_init C (root_dir (this s)) (bas_fofn (this s)) (fasta_fofn (this s))
          (sge_opts (this s)) (world s) = (Inr iq, w1) \<and>
        IceQuiver_validate_inputs C iq w1 = (Inr (), w2) \<longrightarrow>
        3 \<le> length evs \<and>
        evs ! 1 = (Validate_inputs iq, Returned) \<and>
        evs ! 2 = (Run_IceQuiver iq, outcome_of (fst (IceQuiver_run C iq w2)))"
    using assms tr by (auto simp: run_unfold split: prod.splits sum.splits)
  have c: "\<forall>iq w1 e w2.
        IceQuiver_init C (root_dir (this s)) (bas_fofn (this s)) (fasta_fofn (this s))
          (sge_opts (this s)) (world s) = (Inr iq, w1) \<and>
        IceQuiver_validate_inputs C iq w1 = (Inl e, w2) \<longrightarrow>
        r = Inl e \<and>
        evs = [(New_IceQuiver (root_dir (this s)) (bas_fofn (this s)) (fasta_fofn (this s))
                  (sge_opts (this s)), Returned),
               (Validate_inputs iq, Raised e)]"
    using assms tr by (auto simp: run_unfold)
  have d: "\<forall>iq w1 w2 e w3.
        IceQuiver_init C (root_dir (this s)) (bas_fofn (this s)) (fasta_fofn (this s))
          (sge_opts (this s)) (world s) = (Inr iq, w1) \<and>
        IceQuiver_validate_inputs C iq w1 = (Inr (), w2) \<and>
        IceQuiver_run C iq w2 = (Inl e, w3) \<longrightarrow>
        r = Inl e \<and>
        evs = [(New_IceQuiver (root_dir (this s)) (bas_fofn (this s)) (fasta_fofn (this s))
                  (sge_opts (this s)), Returned),
               (Validate_inputs iq, Returned),
               (Run_IceQuiver iq, Raised e)]"
    using assms tr by (auto simp: run_unfold)
  have f: "\<forall>iq w1 w2 w3.
        IceQuiver_init C (root_dir (this s)) (bas_fofn (this s)) (fasta_fofn (this s))
          (sge_opts (this s)) (world s) = (Inr iq, w1) \<and>
        IceQuiver_validate_inputs C iq w1 = (Inr (), w2) \<and>
        IceQuiver_run C iq w2 = (Inr (), w3) \<longrightarrow>
        4 \<le> length evs \<and>
        evs ! 2 = (Run_IceQuiver iq, Returned) \<and>
        is_stage2 (fst (evs ! 3)) \<and>
        (\<forall>j<3. \<not> is_stage2 (fst (evs ! j)))"
    using assms tr
    by (auto simp: run_unfold nth_Cons' less_Suc_eq numeral_3_eq_3 split: prod.splits sum.splits)
  have 1: "\<forall>j<length evs. \<forall>iq out. evs ! j = (Run_IceQuiver iq, out) \<longrightarrow>
        (\<exists>i<j. evs ! i = (Validate_inputs iq, Returned))"
    using sh by (elim disjE exE conjE) (auto simp: nth_Cons' less_Suc_eq new_iq_def)
  have 2: "(\<exists>iq e. (Validate_inputs iq, Raised e) \<in> set evs) \<or>
      (\<exists>iq e. (Run_IceQuiver iq, Raised e) \<in> set evs) \<longrightarrow>
        (\<forall>c out. (c, out) \<in> set evs \<longrightarrow> \<not> is_stage2 c)"
    using sh by (elim disjE exE conjE) (auto simp: new_iq_def)
  have 3: "\<forall>j<length evs. is_stage2 (fst (evs ! j)) \<longrightarrow>
        (\<exists>i<j. \<exists>iq. evs ! i = (Run_IceQuiver iq, Returned))"
    using sh by (elim disjE exE conjE) (auto simp: nth_Cons' less_Suc_eq new_iq_def)
  show ?thesis
    by (rule exI[of _ evs]) (use tr 0 a b c d f 1 2 3 in blast)
qed

theorem run_stage_order_witness:
  "IceQuiver_init example_collaborators ''/out'' ''bas.fofn'' ''fa.fofn'' True
      [''bas.fofn'', ''quiver''] = (Inr ''bas.fofn'', [''bas.fofn'', ''quiver'']) \<and>
   IceQuiver_validate_inputs example_collaborators ''bas.fofn'' [''bas.fofn'', ''quiver'']
      = (Inr (), [''bas.fofn'', ''quiver'']) \<and>
   IceQuiver_run example_collaborators ''bas.fofn'' [''bas.fofn'', ''quiver'']
      = (Inr (), [''polished'', ''bas.fofn'', ''quiver'']) \<and>
   trace (snd (run example_collaborators (start example_object [''bas.fofn'', ''quiver''])))
      ! 1 = (Validate_inputs ''bas.fofn'', Returned) \<and>
   trace (snd (run example_collaborators (start example_object [''bas.fofn'', ''quiver''])))
      ! 2 = (Run_IceQuiver ''bas.fofn'', Returned) \<and>
   is_stage2 (fst (trace (snd (run example_collaborators
      (start example_object [''bas.fofn'', ''quiver'']))) ! 3)) \<and>
   IceQuiver_validate_inputs example_collaborators ''bas.fofn'' []
      = (Inl ''missing input'', []) \<and>
   fst (run example_collaborators (start example_object [])) = Inl ''missing input'' \<and>
   trace (snd (run example_collaborators (start example_object []))) =
      [(New_IceQuiver ''/out'' ''bas.fofn'' ''fa.fofn'' True, Returned),
       (Validate_inputs ''bas.fofn'', Raised ''missing input'')]"
proof -
  let ?C = example_collaborators
  let ?w = "[''bas.fofn'', ''quiver'']"
  let ?s = "start example_object ?w"
  let ?t = "start example_object []"
  have o: "root_dir example_object = ''/out''" "bas_fofn example_object = ''bas.fofn''"
    "fasta_fofn example_object = ''fa.fofn''" "sge_opts example_object = True"
    by (simp_all add: example_object_def IceQuiverAll_init_def)
  have st: "this ?s = example_object" "world ?s = ?w" "trace ?s = []"
    "this ?t = example_object" "world ?t = []" "trace ?t = []"
    by (simp_all add: start_def)
  have hs: "run ?C ?s = (fst (run ?C ?s), snd (run ?C ?s))"
    and ht: "run ?C ?t = (fst (run ?C ?t), snd (run ?C ?t))"
    by simp_all
  have i1: "IceQuiver_init ?C ''/out'' ''bas.fofn'' ''fa.fofn'' True ?w = (Inr ''bas.fofn'', ?w)"
    and i2: "IceQuiver_validate_inputs ?C ''bas.fofn'' ?w = (Inr (), ?w)"
    and i3: "IceQuiver_run ?C ''bas.fofn'' ?w = (Inr (), ''polished'' # ?w)"
    and j1: "IceQuiver_init ?C ''/out'' ''bas.fofn'' ''fa.fofn'' True [] = (Inr ''bas.fofn'', [])"
    and j2: "IceQuiver_validate_inputs ?C ''bas.fofn'' [] = (Inl ''missing input'', [])"
    by (simp_all add: example_collaborators_def)
  from run_stage_order[OF hs, unfolded st o] i1 i2 i3
  have ok: "trace (snd (run ?C ?s)) ! 1 = (Validate_inputs ''bas.fofn'', Returned) \<and>
            trace (snd (run ?C ?s)) ! 2 = (Run_IceQuiver ''bas.fofn'', Returned) \<and>
            is_stage2 (fst (trace (snd (run ?C ?s)) ! 3))"
    by (auto simp del: is_stage2.simps)
  from run_stage_order[OF ht, unfolded st o] j1 j2
  have bad: "fst (run ?C ?t) = Inl ''missing input'' \<and>
             trace (snd (run ?C ?t)) =
               [(New_IceQuiver ''/out'' ''bas.fofn'' ''fa.fofn'' True, Returned),
                (Validate_inputs ''bas.fofn'', Raised ''missing input'')]"
    by auto
  from ok bad i1 i2 i3 j2 show ?thesis by simp
qed

text \<open>
  C2. After a polishing stage that returned (construction, validation and run), \<open>run\<close>
  constructs the post-processing collaborator with the root directory of \<open>self\<close>,
  \<open>use_sge\<close> as read from the SGE options, \<open>quit_if_not_done\<close> equal to \<open>False\<close>
  and the HQ/LQ options of \<open>self\<close>, whatever the world is; and on the object the
  constructor returns it calls \<open>run\<close>, whose outcome and final world are those of
  \<open>IceQuiverAll.run\<close>.
\<close>

theorem run_postprocess_after_polishing:
  assumes "IceQuiver_init C (root_dir (this s)) (bas_fofn (this s)) (fasta_fofn (this s))
             (sge_opts (this s)) (world s) = (Inr iq, w1)"
    and "IceQuiver_validate_inputs C iq w1 = (Inr (), w2)"
    and "IceQuiver_run C iq w2 = (Inr (), w3)"
  shows "(\<exists>out rest. trace (snd (run C s)) = trace s @
            [(New_IceQuiver (root_dir (this s)) (bas_fofn (this s)) (fasta_fofn (this s))
                (sge_opts (this s)), Returned),
             (Validate_inputs iq, Returned),
             (Run_IceQuiver iq, Returned),
             (New_IceQuiverPostprocess (root_dir (this s)) (use_sge C (sge_opts (this s)) w3)
                False (ipq_opts (this s)), out)] @ rest) \<and>
         (\<forall>pq w4. IceQuiverPostprocess_init C (root_dir (this s))
                     (use_sge C (sge_opts (this s)) w3) False (ipq_opts (this s)) w3 = (Inr pq, w4) \<longrightarrow>
            fst (run C s) = fst (IceQuiverPostprocess_run C pq w4) \<and>
            world (snd (run C s)) = snd (IceQuiverPostprocess_run C pq w4) \<and>
            trace (snd (run C s)) = trace s @
              [(New_IceQuiver (root_dir (this s)) (bas_fofn (this s)) (fasta_fofn (this s))
                  (sge_opts (this s)), Returned),
               (Validate_inputs iq, Returned),
               (Run_IceQuiver iq, Returned),
               (New_IceQuiverPostprocess (root_dir (this s)) (use_sge C (sge_opts (this s)) w3)
                  False (ipq_opts (this s)), Returned),
               (Run_IceQuiverPostprocess pq,
                  outcome_of (fst (IceQuiverPostprocess_run C pq w4)))])"
proof (intro conjI allI impI)
  show "\<exists>out rest. trace (snd (run C s)) = trace s @
            [(New_IceQuiver (root_dir (this s)) (bas_fofn (this s)) (fasta_fofn (this s))
                (sge_opts (this s)), Returned),
             (Validate_inputs iq, Returned),
             (Run_IceQuiver iq, Returned),
             (New_IceQuiverPostprocess (root_dir (this s)) (use_sge C (sge_opts (this s)) w3)
                False (ipq_opts (this s)), out)] @ rest"
    using assms by (simp add: run_unfold split: prod.splits sum.splits)
next
  fix pq w4
  assume pp: "IceQuiverPostprocess_init C (root_dir (this s))
                (use_sge C (sge_opts (this s)) w3) False (ipq_opts (this s)) w3 = (Inr pq, w4)"
  show "fst (run C s) = fst (IceQuiverPostprocess_run C pq w4)"
    using assms pp by (simp add: run_unfold split: prod.splits)
  show "world (snd (run C s)) = snd (IceQuiverPostprocess_run C pq w4)"
    using assms pp by (simp add: run_unfold split: prod.splits)
  show "trace (snd (run C s)) = trace s @
              [(New_IceQuiver (root_dir (this s)) (bas_fofn (this s)) (fasta_fofn (this s))
                  (sge_opts (this s)), Returned),
               (Validate_inputs iq, Returned),
               (Run_IceQuiver iq, Returned),
               (New_IceQuiverPostprocess (root_dir (this s)) (use_sge C (sge_opts (this s)) w3)
                  False (ipq_opts (this s)), Returned),
               (Run_IceQuiverPostprocess pq,
                  outcome_of (fst (IceQuiverPostprocess_run C pq w4)))]"
    using assms pp by (simp add: run_unfold split: prod.splits)
qed

theorem run_postprocess_after_polishing_witness:
  "IceQuiver_init example_collaborators ''/out'' ''bas.fofn'' ''fa.fofn'' True
      [''bas.fofn'', ''quiver''] = (Inr ''bas.fofn'', [''bas.fofn'', ''quiver'']) \<and>
   IceQuiver_validate_inputs example_collaborators ''bas.fofn'' [''bas.fofn'', ''quiver'']
      = (Inr (), [''bas.fofn'', ''quiver'']) \<and>
   IceQuiver_run example_collaborators ''bas.fofn'' [''bas.fofn'', ''quiver'']
      = (Inr (), [''polished'', ''bas.fofn'', ''quiver'']) \<and>
   fst (run example_collaborators (start example_object [''bas.fofn'', ''quiver''])) = Inr () \<and>
   world (snd (run example_collaborators (start example_object [''bas.fofn'', ''quiver''])))
      = [''hq_lq'', ''polished'', ''bas.fofn'', ''quiver''] \<and>
   trace (snd (run example_collaborators (start example_object [''bas.fofn'', ''quiver''])))
      = [(New_IceQuiver ''/out'' ''bas.fofn'' ''fa.fofn'' True, Returned),
         (Validate_inputs ''bas.fofn'', Returned),
         (Run_IceQuiver ''bas.fofn'', Returned),
         (New_IceQuiverPostprocess ''/out'' True False ''--hq_quiver_min_accuracy=0.99 '',
            Returned),
         (Run_IceQuiverPostprocess ''/out'', Returned)]"
proof -
  let ?w = "[''bas.fofn'', ''quiver'']"
  let ?s = "start example_object ?w"
  let ?C = example_collaborators
  have h1: "IceQuiver_init ?C (root_dir (this ?s)) (bas_fofn (this ?s)) (fasta_fofn (this ?s))
             (sge_opts (this ?s)) (world ?s) = (Inr ''bas.fofn'', ?w)"
    by (simp add: example_collaborators_def start_def example_object_def IceQuiverAll_init_def)
  have h2: "IceQuiver_validate_inputs ?C ''bas.fofn'' ?w = (Inr (), ?w)"
    by (simp add: example_collaborators_def)
  have h3: "IceQuiver_run ?C ''bas.fofn'' ?w = (Inr (), ''polished'' # ?w)"
    by (simp add: example_collaborators_def)
  have pp: "IceQuiverPostprocess_init ?C (root_dir (this ?s))
              (use_sge ?C (sge_opts (this ?s)) (''polished'' # ?w)) False (ipq_opts (this ?s))
              (''polished'' # ?w) = (Inr ''/out'', ''polished'' # ?w)"
    by (simp add: example_collaborators_def start_def example_object_def IceQuiverAll_init_def)
  have r: "IceQuiverPostprocess_run ?C ''/out'' (''polished'' # ?w) = (Inr (), ''hq_lq'' # ''polished'' # ?w)"
    by (simp add: example_collaborators_def)
  from run_postprocess_after_polishing[OF h1 h2 h3] pp
  have "fst (run ?C ?s) = fst (IceQuiverPostprocess_run ?C ''/out'' (''polished'' # ?w)) \<and>
        world (snd (run ?C ?s)) = snd (IceQuiverPostprocess_run ?C ''/out'' (''polished'' # ?w)) \<and>
        trace (snd (run ?C ?s)) = trace ?s @
              [(New_IceQuiver (root_dir (this ?s)) (bas_fofn (this ?s)) (fasta_fofn (this ?s))
                  (sge_opts (this ?s)), Returned),
               (Validate_inputs ''bas.fofn'', Returned),
               (Run_IceQuiver ''bas.fofn'', Returned),
               (New_IceQuiverPostprocess (root_dir (this ?s))
                  (use_sge ?C (sge_opts (this ?s)) (''polished'' # ?w))
                  False (ipq_opts (this ?s)), Returned),
               (Run_IceQuiverPostprocess ''/out'',
                  outcome_of (fst (IceQuiverPostprocess_run ?C ''/out'' (''polished'' # ?w))))]"
    by blast
  then have "fst (run ?C ?s) = Inr () \<and>
        world (snd (run ?C ?s)) = ''hq_lq'' # ''polished'' # ?w \<and>
        trace (snd (run ?C ?s)) =
              [(New_IceQuiver ''/out'' ''bas.fofn'' ''fa.fofn'' True, Returned),
               (Validate_inputs ''bas.fofn'', Returned),
               (Run_IceQuiver ''bas.fofn'', Returned),
               (New_IceQuiverPostprocess ''/out'' True False ''--hq_quiver_min_accuracy=0.99 '',
                  Returned),
               (Run_IceQuiverPostprocess ''/out'', Returned)]"
    unfolding r
    by (simp add: start_def example_object_def IceQuiverAll_init_def example_collaborators_def)
  with h2 h3 show ?thesis
    by (simp add: example_collaborators_def)
qed


text \<open>
  C6. Failures pass through \<open>run\<close> unchanged. The outcome of \<open>run\<close> is the outcome of
  the last collaborator call it made: an exception of \<open>run\<close> is the very exception that
  call raised, so \<open>run\<close> has no error of its own and wraps nothing. Every earlier call
  returned, no call is made after a failure and none is made twice (no retry, no
  recovery). When validation, the polishing run or the post-processing run raises,
  \<open>run\<close> raises the same exception and leaves the world as that call left it.
\<close>

theorem run_failure_passthrough:
  assumes "run C s = (r, s')"
  shows "(\<exists>evs. trace s' = trace s @ evs \<and> evs \<noteq> [] \<and>
            snd (last evs) = outcome_of r \<and>
            (\<forall>i<length evs - 1. snd (evs ! i) = Returned) \<and>
            distinct (map fst evs)) \<and>
         (\<forall>iq w1 e w2.
            IceQuiver_init C (root_dir (this s)) (bas_fofn (this s)) (fasta_fofn (this s))
              (sge_opts (this s)) (world s) = (Inr iq, w1) \<and>
            IceQuiver_validate_inputs C iq w1 = (Inl e, w2) \<longrightarrow>
            r = Inl e \<and> world s' = w2) \<and>
         (\<forall>iq w1 w2 e w3.
            IceQuiver_init C (root_dir (this s)) (bas_fofn (this s)) (fasta_fofn (this s))
              (sge_opts (this s)) (world s) = (Inr iq, w1) \<and>
            IceQuiver_validate_inputs C iq w1 = (Inr (), w2) \<and>
            IceQuiver_run C iq w2 = (Inl e, w3) \<longrightarrow>
            r = Inl e \<and> world s' = w3) \<and>
         (\<forall>iq w1 w2 w3 pq w4 e w5.
            IceQuiver_init C (root_dir (this s)) (bas_fofn (this s)) (fasta_fofn (this s))
              (sge_opts (this s)) (world s) = (Inr iq, w1) \<and>
            IceQuiver_validate_inputs C iq w1 = (Inr (), w2) \<and>
            IceQuiver_run C iq w2 = (Inr (), w3) \<and>
            IceQuiverPostprocess_init C (root_dir (this s)) (use_sge C (sge_opts (this s)) w3)
              False (ipq_opts (this s)) w3 = (Inr pq, w4) \<and>
            IceQuiverPostprocess_run C pq w4 = (Inl e, w5) \<longrightarrow>
            r = Inl e \<and> world s' = w5)"
proof (intro conjI)
  from run_shape[OF assms] obtain evs iq u pq e where
    tr: "trace s' = trace s @ evs" and
    sh: "evs = [(new_iq s, Raised e)] \<and> r = Inl e \<or>
     evs = [(new_iq s, Returned), (Validate_inputs iq, Raised e)] \<and> r = Inl e \<or>
     evs = [(new_iq s, Returned), (Validate_inputs iq, Returned), (Run_IceQuiver iq, Raised e)] \<and> r = Inl e \<or>
     evs = [(new_iq s, Returned), (Validate_inputs iq, Returned), (Run_IceQuiver iq, Returned),
        (New_IceQuiverPostprocess (root_dir (this s)) u False (ipq_opts (this s)), Raised e)] \<and> r = Inl e \<or>
     evs = [(new_iq s, Returned), (Validate_inputs iq, Returned), (Run_IceQuiver iq, Returned),
        (New_IceQuiverPostprocess (root_dir (this s)) u False (ipq_opts (this s)), Returned),
        (Run_IceQuiverPostprocess pq, outcome_of r)]"
    by blast
  have "evs \<noteq> [] \<and> snd (last evs) = outcome_of r \<and>
            (\<forall>i<length evs - 1. snd (evs ! i) = Returned) \<and>
            distinct (map fst evs)"
    using sh by (elim disjE exE conjE) (auto simp: nth_Cons' less_Suc_eq new_iq_def)
  with tr show "\<exists>evs. trace s' = trace s @ evs \<and> evs \<noteq> [] \<and>
            snd (last evs) = outcome_of r \<and>
            (\<forall>i<length evs - 1. snd (evs ! i) = Returned) \<and>
            distinct (map fst evs)"
    by blast
next
  show "\<forall>iq w1 e w2.
            IceQuiver_init C (root_dir (this s)) (bas_fofn (this s)) (fasta_fofn (this s))
              (sge_opts (this s)) (world s) = (Inr iq, w1) \<and>
            IceQuiver_validate_inputs C iq w1 = (Inl e, w2) \<longrightarrow>
            r = Inl e \<and> world s' = w2"
    using assms by (auto simp: run_unfold)
next
  show "\<forall>iq w1 w2 e w3.
            IceQuiver_init C (root_dir (this s)) (bas_fofn (this s)) (fasta_fofn (this s))
              (sge_opts (this s)) (world s) = (Inr iq, w1) \<and>
            IceQuiver_validate_inputs C iq w1 = (Inr (), w2) \<and>
            IceQuiver_run C iq w2 = (Inl e, w3) \<longrightarrow>
            r = Inl e \<and> world s' = w3"
    using assms by (auto simp: run_unfold)
next
  show "\<forall>iq w1 w2 w3 pq w4 e w5.
            IceQuiver_init C (root_dir (this s)) (bas_fofn (this s)) (fasta_fofn (this s))
              (sge_opts (this s)) (world s) = (Inr iq, w1) \<and>
            IceQuiver_validate_inputs C iq w1 = (Inr (), w2) \<and>
            IceQuiver_run C iq w2 = (Inr (), w3) \<and>
            IceQuiverPostprocess_init C (root_dir (this s)) (use_sge C (sge_opts (this s)) w3)
              False (ipq_opts (this s)) w3 = (Inr pq, w4) \<and>
            IceQuiverPostprocess_run C pq w4 = (Inl e, w5) \<longrightarrow>
            r = Inl e \<and> world s' = w5"
    using assms by (auto simp: run_unfold)
qed

theorem run_failure_passthrough_witness:
  "IceQuiver_init example_collaborators ''/out'' ''bas.fofn'' ''fa.fofn'' True [''bas.fofn'']
      = (Inr ''bas.fofn'', [''bas.fofn'']) \<and>
   IceQuiver_validate_inputs example_collaborators ''bas.fofn'' [''bas.fofn'']
      = (Inr (), [''bas.fofn'']) \<and>
   IceQuiver_run example_collaborators ''bas.fofn'' [''bas.fofn'']
      = (Inl ''polishing failed'', [''bas.fofn'']) \<and>
   fst (run example_collaborators (start example_object [''bas.fofn''])) = Inl ''polishing failed'' \<and>
   world (snd (run example_collaborators (start example_object [''bas.fofn'']))) = [''bas.fofn''] \<and>
   trace (snd (run example_collaborators (start example_object [''bas.fofn''])))
      = [(New_IceQuiver ''/out'' ''bas.fofn'' ''fa.fofn'' True, Returned),
         (Validate_inputs ''bas.fofn'', Returned),
         (Run_IceQuiver ''bas.fofn'', Raised ''polishing failed'')]"
proof -
  let ?w = "[''bas.fofn'']"
  let ?s = "start example_object ?w"
  let ?C = example_collaborators
  have h: "run ?C ?s = (fst (run ?C ?s), snd (run ?C ?s))"
    by simp
  have i1: "IceQuiver_init ?C (root_dir (this ?s)) (bas_fofn (this ?s)) (fasta_fofn (this ?s))
             (sge_opts (this ?s)) (world ?s) = (Inr ''bas.fofn'', ?w)"
    by (simp add: example_collaborators_def start_def example_object_def IceQuiverAll_init_def)
  have i2: "IceQuiver_validate_inputs ?C ''bas.fofn'' ?w = (Inr (), ?w)"
    by (simp add: example_collaborators_def)
  have i3: "IceQuiver_run ?C ''bas.fofn'' ?w = (Inl ''polishing failed'', ?w)"
    by (simp add: example_collaborators_def)
  from run_failure_passthrough[OF h] i1 i2 i3
  have r: "fst (run ?C ?s) = Inl ''polishing failed'' \<and> world (snd (run ?C ?s)) = ?w"
    by blast
  have t: "trace (snd (run ?C ?s))
      = [(New_IceQuiver ''/out'' ''bas.fofn'' ''fa.fofn'' True, Returned),
         (Validate_inputs ''bas.fofn'', Returned),
         (Run_IceQuiver ''bas.fofn'', Raised ''polishing failed'')]"
    by (simp add: run_unfold example_collaborators_def start_def example_object_def
        IceQuiverAll_init_def)
  from r t i2 i3 show ?thesis
    by (simp add: example_collaborators_def)
qed

section \<open>The stored configuration\<close>

lemma cmd_str_unfold:
  "cmd_str C s =
    (case sge_cmd_str C (sge_opts (this s)) True True (world s) of
       (Inl e, w1) \<Rightarrow>
         (Inl e, s\<lparr>world := w1, trace := trace s @
            [(Sge_cmd_str (sge_opts (this s)) True True, Raised e)]\<rparr>)
     | (Inr sge_str, w1) \<Rightarrow>
    (case ipq_cmd_str C (ipq_opts (this s)) w1 of
       (Inl e, w2) \<Rightarrow>
         (Inl e, s\<lparr>world := w2, trace := trace s @
            [(Sge_cmd_str (sge_opts (this s)) True True, Returned),
             (Ipq_cmd_str (ipq_opts (this s)), Raised e)]\<rparr>)
     | (Inr ipq_str, w2) \<Rightarrow>
         (Inr (cmd_prefix (this s) @ flag ''--report='' (report_fn (this s)) @
               flag ''--summary='' (summary_fn (this s)) @ sge_str @ ipq_str),
          s\<lparr>world := w2, trace := trace s @
            [(Sge_cmd_str (sge_opts (this s)) True True, Returned),
             (Ipq_cmd_str (ipq_opts (this s)), Returned)]\<rparr>)))"
  by (simp add: cmd_str_def cmd_str_impl_def bind_exn_def call_def return_exn_def prog_def
      cmd_prefix_def flag_def Let_def
      split: prod.splits sum.splits option.splits)

text \<open>
  C7. The constructor stores its arguments in the seven attributes, and neither
  \<open>cmd_str\<close> nor \<open>run\<close> changes the object: after either, whether it returned or raised,
  \<open>self\<close> is the object it was before. (The attributes \<open>sge_opts\<close> and \<open>ipq_opts\<close> are
  references; what the collaborators do to the objects they refer to is part of the
  world.)
\<close>

theorem configuration_never_mutated:
  "root_dir (IceQuiverAll_init rd bf ff sg ip rf sf pn) = rd \<and>
   bas_fofn (IceQuiverAll_init rd bf ff sg ip rf sf pn) = bf \<and>
   fasta_fofn (IceQuiverAll_init rd bf ff sg ip rf sf pn) = ff \<and>
   report_fn (IceQuiverAll_init rd bf ff sg ip rf sf pn) = rf \<and>
   summary_fn (IceQuiverAll_init rd bf ff sg ip rf sf pn) = sf \<and>
   sge_opts (IceQuiverAll_init rd bf ff sg ip rf sf pn) = sg \<and>
   ipq_opts (IceQuiverAll_init rd bf ff sg ip rf sf pn) = ip \<and>
   this (snd (cmd_str C s)) = this s \<and>
   this (snd (run C s)) = this s"
  by (simp add: IceQuiverAll_init_def cmd_str_unfold run_unfold split: prod.splits sum.splits)

text \<open>
  C9. \<open>prog_name\<close> is not stored: two constructions that differ in \<open>prog_name\<close> only
  give the same object, hence the same result and final state of \<open>cmd_str\<close> and of
  \<open>run\<close> (the call log included), and every string \<open>cmd_str\<close> returns starts with the
  class attribute \<open>ice_quiver.py all \<close>.
\<close>

theorem prog_name_has_no_effect:
  "IceQuiverAll_init rd bf ff sg ip rf sf p1 = IceQuiverAll_init rd bf ff sg ip rf sf p2 \<and>
   cmd_str C \<lparr>this = IceQuiverAll_init rd bf ff sg ip rf sf p1, world = w, trace = t\<rparr> =
   cmd_str C \<lparr>this = IceQuiverAll_init rd bf ff sg ip rf sf p2, world = w, trace = t\<rparr> \<and>
   run C \<lparr>this = IceQuiverAll_init rd bf ff sg ip rf sf p1, world = w, trace = t\<rparr> =
   run C \<lparr>this = IceQuiverAll_init rd bf ff sg ip rf sf p2, world = w, trace = t\<rparr> \<and>
   (\<forall>str s'. cmd_str C \<lparr>this = IceQuiverAll_init rd bf ff sg ip rf sf p1, world = w, trace = t\<rparr>
        = (Inr str, s') \<longrightarrow> prefix ''ice_quiver.py all '' str)"
proof -
  have eq: "IceQuiverAll_init rd bf ff sg ip rf sf p1 = IceQuiverAll_init rd bf ff sg ip rf sf p2"
    by (simp add: IceQuiverAll_init_def)
  have pre: "\<forall>str s'. cmd_str C \<lparr>this = IceQuiverAll_init rd bf ff sg ip rf sf p1, world = w, trace = t\<rparr>
        = (Inr str, s') \<longrightarrow> prefix ''ice_quiver.py all '' str"
    by (auto simp: cmd_str_unfold cmd_prefix_def split: prod.splits sum.splits)
  from eq pre show ?thesis by simp
qed

theorem prog_name_has_no_effect_witness:
  "IceQuiverAll_init ''/out'' ''bas.fofn'' ''fa.fofn'' True ''--hq_quiver_min_accuracy=0.99 ''
      None None None =
   IceQuiverAll_init ''/out'' ''bas.fofn'' ''fa.fofn'' True ''--hq_quiver_min_accuracy=0.99 ''
      None None (Some ''my_prog'') \<and>
   fst (cmd_str example_collaborators
     \<lparr>this = IceQuiverAll_init ''/out'' ''bas.fofn'' ''fa.fofn'' True
               ''--hq_quiver_min_accuracy=0.99 '' None None (Some ''my_prog''),
      world = [], trace = []\<rparr>) =
   Inr (''ice_quiver.py all /out --bas_fofn=bas.fofn --fasta_fofn=fa.fofn '' @
        ''--use_sge --blasr_nproc=4 --quiver_nproc=8 --hq_quiver_min_accuracy=0.99 '') \<and>
   prefix ''ice_quiver.py all ''
     (''ice_quiver.py all /out --bas_fofn=bas.fofn --fasta_fofn=fa.fofn '' @
      ''--use_sge --blasr_nproc=4 --quiver_nproc=8 --hq_quiver_min_accuracy=0.99 '')"
proof -
  let ?C = example_collaborators
  let ?o1 = "IceQuiverAll_init ''/out'' ''bas.fofn'' ''fa.fofn'' True
               ''--hq_quiver_min_accuracy=0.99 '' None None None"
  let ?o2 = "IceQuiverAll_init ''/out'' ''bas.fofn'' ''fa.fofn'' True
               ''--hq_quiver_min_accuracy=0.99 '' None None (Some ''my_prog'')"
  let ?str = "''ice_quiver.py all /out --bas_fofn=bas.fofn --fasta_fofn=fa.fofn '' @
        ''--use_sge --blasr_nproc=4 --quiver_nproc=8 --hq_quiver_min_accuracy=0.99 ''"
  note th = prog_name_has_no_effect[of "''/out''" "''bas.fofn''" "''fa.fofn''" True
      "''--hq_quiver_min_accuracy=0.99 ''" None None None "Some ''my_prog''" ?C "[]" "[]"]
  have v: "cmd_str ?C \<lparr>this = ?o1, world = [], trace = []\<rparr> =
      (Inr ?str,
       \<lparr>this = ?o1, world = [],
        trace = [(Sge_cmd_str True True True, Returned),
                 (Ipq_cmd_str ''--hq_quiver_min_accuracy=0.99 '', Returned)]\<rparr>)"
    by (simp add: cmd_str_unfold cmd_prefix_def flag_def example_collaborators_def
        IceQuiverAll_init_def)
  from th have e: "?o1 = ?o2"
    and c: "cmd_str ?C \<lparr>this = ?o1, world = [], trace = []\<rparr> =
            cmd_str ?C \<lparr>this = ?o2, world = [], trace = []\<rparr>"
    by blast+
  from th v have p: "prefix ''ice_quiver.py all '' ?str"
    by blast
  from c[symmetric] v have "fst (cmd_str ?C \<lparr>this = ?o2, world = [], trace = []\<rparr>) = Inr ?str"
    by (simp only: fst_conv)
  with e p show ?thesis by blast
qed

section \<open>The command string\<close>

text \<open>
  C5. When both serialisations return, \<open>cmd_str\<close> returns the concatenation, in this
  order, of: the program name, the root directory, the \<open>--bas_fofn\<close> flag, the
  \<open>--fasta_fofn\<close> flag, the report flag if a report path is set, the summary flag if
  a summary path is set, the serialisation of the SGE options called with
  \<open>show_blasr_nproc=True\<close> and \<open>show_quiver_nproc=True\<close>, and last the serialisation
  of the HQ/LQ options; the SGE options are serialised before the HQ/LQ options.
\<close>

theorem cmd_str_fixed_order:
  assumes "sge_cmd_str C (sge_opts (this s)) True True (world s) = (Inr sge_str, w1)"
    and "ipq_cmd_str C (ipq_opts (this s)) w1 = (Inr ipq_str, w2)"
  shows "cmd_str C s =
     (Inr (concat
        [prog,
         root_dir (this s) @ '' '',
         ''--bas_fofn='' @ bas_fofn (this s) @ '' '',
         ''--fasta_fofn='' @ fasta_fofn (this s) @ '' '',
         (case report_fn (this s) of None \<Rightarrow> [] | Some f \<Rightarrow> ''--report='' @ f @ '' ''),
         (case summary_fn (this s) of None \<Rightarrow> [] | Some f \<Rightarrow> ''--summary='' @ f @ '' ''),
         sge_str,
         ipq_str]),
      s\<lparr>world := w2,
        trace := trace s @ [(Sge_cmd_str (sge_opts (this s)) True True, Returned),
                            (Ipq_cmd_str (ipq_opts (this s)), Returned)]\<rparr>)"
  using assms by (simp add: cmd_str_unfold cmd_prefix_def flag_def prog_def split: option.splits)

theorem cmd_str_fixed_order_witness:
  "sge_cmd_str example_collaborators False True True [] = (Inr ''--blasr_nproc=4 --quiver_nproc=8 '', []) \<and>
   ipq_cmd_str example_collaborators ''--hq_quiver_min_accuracy=0.99 '' []
      = (Inr ''--hq_quiver_min_accuracy=0.99 '', []) \<and>
   cmd_str example_collaborators (start example_object_full []) =
     (Inr (''ice_quiver.py all /out --bas_fofn=bas.fofn --fasta_fofn=fa.fofn '' @
           ''--report=report.txt --summary=summary.txt '' @
           ''--blasr_nproc=4 --quiver_nproc=8 --hq_quiver_min_accuracy=0.99 ''),
      \<lparr>this = example_object_full, world = [],
       trace = [(Sge_cmd_str False True True, Returned),
                (Ipq_cmd_str ''--hq_quiver_min_accuracy=0.99 '', Returned)]\<rparr>)"
proof -
  let ?C = example_collaborators
  let ?s = "start example_object_full []"
  have h1: "sge_cmd_str ?C (sge_opts (this ?s)) True True (world ?s) =
      (Inr ''--blasr_nproc=4 --quiver_nproc=8 '', [])"
    by (simp add: example_collaborators_def start_def example_object_full_def IceQuiverAll_init_def)
  have h2: "ipq_cmd_str ?C (ipq_opts (this ?s)) [] = (Inr ''--hq_quiver_min_accuracy=0.99 '', [])"
    by (simp add: example_collaborators_def start_def example_object_full_def IceQuiverAll_init_def)
  from cmd_str_fixed_order[OF h1 h2] h1 h2 show ?thesis
    by (simp add: start_def example_object_full_def IceQuiverAll_init_def prog_def)
qed

text \<open>
  C8. \<open>cmd_str\<close> is a function of the configuration and of what the two serialisations
  return: two invocations on equal configurations, in which the serialisations give equal
  results, give equal results. An exception of \<open>cmd_str\<close> is the exception of one of the
  two serialisations; when both return, \<open>cmd_str\<close> returns a string. It has no effect of
  its own: \<open>self\<close> is unchanged, the world is left as the serialisations left it, and it
  is unchanged when they do not change it.
\<close>

theorem cmd_str_pure:
  "(this s = this t \<and>
    fst (sge_cmd_str C (sge_opts (this s)) True True (world s)) =
    fst (sge_cmd_str D (sge_opts (this t)) True True (world t)) \<and>
    fst (ipq_cmd_str C (ipq_opts (this s))
           (snd (sge_cmd_str C (sge_opts (this s)) True True (world s)))) =
    fst (ipq_cmd_str D (ipq_opts (this t))
           (snd (sge_cmd_str D (sge_opts (this t)) True True (world t))))
    \<longrightarrow> fst (cmd_str C s) = fst (cmd_str D t)) \<and>
   (\<forall>e. fst (cmd_str C s) = Inl e \<longrightarrow>
      fst (sge_cmd_str C (sge_opts (this s)) True True (world s)) = Inl e \<or>
      fst (ipq_cmd_str C (ipq_opts (this s))
             (snd (sge_cmd_str C (sge_opts (this s)) True True (world s)))) = Inl e) \<and>
   (\<forall>a w1 b w2. sge_cmd_str C (sge_opts (this s)) True True (world s) = (Inr a, w1) \<and>
      ipq_cmd_str C (ipq_opts (this s)) w1 = (Inr b, w2) \<longrightarrow>
      (\<exists>str. fst (cmd_str C s) = Inr str) \<and> world (snd (cmd_str C s)) = w2) \<and>
   this (snd (cmd_str C s)) = this s \<and>
   ((\<forall>sg x y w. snd (sge_cmd_str C sg x y w) = w) \<and> (\<forall>ip w. snd (ipq_cmd_str C ip w) = w)
      \<longrightarrow> world (snd (cmd_str C s)) = world s)"
proof (intro conjI)
  show "this s = this t \<and>
    fst (sge_cmd_str C (sge_opts (this s)) True True (world s)) =
    fst (sge_cmd_str D (sge_opts (this t)) True True (world t)) \<and>
    fst (ipq_cmd_str C (ipq_opts (this s))
           (snd (sge_cmd_str C (sge_opts (this s)) True True (world s)))) =
    fst (ipq_cmd_str D (ipq_opts (this t))
           (snd (sge_cmd_str D (sge_opts (this t)) True True (world t))))
    \<longrightarrow> fst (cmd_str C s) = fst (cmd_str D t)"
    by (auto simp: cmd_str_unfold split: prod.splits sum.splits)
  show "\<forall>e. fst (cmd_str C s) = Inl e \<longrightarrow>
      fst (sge_cmd_str C (sge_opts (this s)) True True (world s)) = Inl e \<or>
      fst (ipq_cmd_str C (ipq_opts (this s))
             (snd (sge_cmd_str C (sge_opts (this s)) True True (world s)))) = Inl e"
    by (auto simp: cmd_str_unfold split: prod.splits sum.splits)
  show "\<forall>a w1 b w2. sge_cmd_str C (sge_opts (this s)) True True (world s) = (Inr a, w1) \<and>
      ipq_cmd_str C (ipq_opts (this s)) w1 = (Inr b, w2) \<longrightarrow>
      (\<exists>str. fst (cmd_str C s) = Inr str) \<and> world (snd (cmd_str C s)) = w2"
    by (auto simp: cmd_str_unfold)
  show "this (snd (cmd_str C s)) = this s"
    by (simp add: cmd_str_unfold split: prod.splits sum.splits)
  show "(\<forall>sg x y w. snd (sge_cmd_str C sg x y w) = w) \<and> (\<forall>ip w. snd (ipq_cmd_str C ip w) = w)
      \<longrightarrow> world (snd (cmd_str C s)) = world s"
  proof
    assume p: "(\<forall>sg x y w. snd (sge_cmd_str C sg x y w) = w) \<and> (\<forall>ip w. snd (ipq_cmd_str C ip w) = w)"
    then have 1: "snd (sge_cmd_str C (sge_opts (this s)) True True (world s)) = world s"
      and 2: "snd (ipq_cmd_str C (ipq_opts (this s)) (world s)) = world s"
      by blast+
    then show "world (snd (cmd_str C s)) = world s"
      by (auto simp: cmd_str_unfold split: prod.splits sum.splits)
  qed
qed

theorem cmd_str_pure_witness:
  "sge_cmd_str example_collaborators True True True [] =
      (Inr ''--use_sge --blasr_nproc=4 --quiver_nproc=8 '', []) \<and>
   ipq_cmd_str example_collaborators ''--hq_quiver_min_accuracy=0.99 '' [] =
      (Inr ''--hq_quiver_min_accuracy=0.99 '', []) \<and>
   fst (cmd_str example_collaborators (start example_object [])) =
   fst (cmd_str example_collaborators (start example_object [''bas.fofn'', ''quiver''])) \<and>
   world (snd (cmd_str example_collaborators (start example_object []))) = []"
proof -
  let ?C = example_collaborators
  let ?s = "start example_object []"
  let ?t = "start example_object [''bas.fofn'', ''quiver'']"
  note th = cmd_str_pure[of ?s ?t ?C ?C]
  have a: "this ?s = this ?t"
    by (simp add: start_def)
  have b: "fst (sge_cmd_str ?C (sge_opts (this ?s)) True True (world ?s)) =
           fst (sge_cmd_str ?C (sge_opts (this ?t)) True True (world ?t))"
    by (simp add: example_collaborators_def start_def)
  have c: "fst (ipq_cmd_str ?C (ipq_opts (this ?s))
                  (snd (sge_cmd_str ?C (sge_opts (this ?s)) True True (world ?s)))) =
           fst (ipq_cmd_str ?C (ipq_opts (this ?t))
                  (snd (sge_cmd_str ?C (sge_opts (this ?t)) True True (world ?t))))"
    by (simp add: example_collaborators_def start_def)
  from th a b c have 1: "fst (cmd_str ?C ?s) = fst (cmd_str ?C ?t)"
    by blast
  have d: "(\<forall>sg x y w. snd (sge_cmd_str ?C sg x y w) = w) \<and>
           (\<forall>ip w. snd (ipq_cmd_str ?C ip w) = w)"
    by (simp add: example_collaborators_def)
  from th d have "world (snd (cmd_str ?C ?s)) = world ?s"
    by blast
  then have 2: "world (snd (cmd_str ?C ?s)) = []"
    by (simp add: start_def)
  from 1 2 show ?thesis
    by (simp add: example_collaborators_def)
qed


section \<open>Flag texts in the command string\<close>

text \<open>
  The paths are copied into the string as they are, so a flag text inside a path, or
  inside what a collaborator returns, is a flag text of the string. The lemmas below count
  the occurrences: the parts of the string are separated by spaces and the flag texts
  have none, so an occurrence lies inside one part.
\<close>

lemma occurrences_0_iff: "occurrences pat s = 0 \<longleftrightarrow> \<not> sublist pat s"
  by (induction s) (auto simp: sublist_Cons_right)

lemma prefix_sep:
  assumes "c \<notin> set pat"
  shows "prefix pat (xs @ c # ys) \<longleftrightarrow> prefix pat xs"
proof
  assume "prefix pat (xs @ c # ys)"
  then have "prefix pat xs \<or> (\<exists>us. pat = xs @ us \<and> prefix us (c # ys))"
    by (auto simp: prefix_append)
  then show "prefix pat xs"
  proof
    assume "\<exists>us. pat = xs @ us \<and> prefix us (c # ys)"
    then obtain us where u: "pat = xs @ us" "prefix us (c # ys)" by blast
    show ?thesis
    proof (cases us)
      case Nil
      with u show ?thesis by simp
    next
      case (Cons a vs)
      with u have "a = c" by simp
      with Cons u assms show ?thesis by simp
    qed
  qed simp
next
  assume "prefix pat xs"
  then show "prefix pat (xs @ c # ys)" by (simp add: prefix_prefix)
qed

lemma occurrences_sep:
  assumes "c \<notin> set pat" "pat \<noteq> []"
  shows "occurrences pat (xs @ c # ys) = occurrences pat xs + occurrences pat ys"
proof (induction xs)
  case Nil
  have "\<not> prefix pat (c # ys)"
    using assms by (cases pat) auto
  with assms show ?case by simp
next
  case (Cons x xs)
  have "prefix pat ((x # xs) @ c # ys) \<longleftrightarrow> prefix pat (x # xs)"
    by (rule prefix_sep[OF assms(1)])
  with Cons show ?case by simp
qed

lemma occurrences_report:
  "occurrences ''--report='' (cmd_prefix self @ flag ''--report='' rf @ flag ''--summary='' sf @ rest) =
     occurrences ''--report='' (root_dir self) + occurrences ''--report='' (bas_fofn self) +
     occurrences ''--report='' (fasta_fofn self) +
     (case rf of None \<Rightarrow> 0 | Some r \<Rightarrow> 1 + occurrences ''--report='' r) +
     (case sf of None \<Rightarrow> 0 | Some m \<Rightarrow> occurrences ''--report='' m) +
     occurrences ''--report='' rest"
  by (cases rf; cases sf) (simp_all add: cmd_prefix_def flag_def occurrences_sep)

lemma occurrences_summary:
  "occurrences ''--summary='' (cmd_prefix self @ flag ''--report='' rf @ flag ''--summary='' sf @ rest) =
     occurrences ''--summary='' (root_dir self) + occurrences ''--summary='' (bas_fofn self) +
     occurrences ''--summary='' (fasta_fofn self) +
     (case rf of None \<Rightarrow> 0 | Some r \<Rightarrow> occurrences ''--summary='' r) +
     (case sf of None \<Rightarrow> 0 | Some m \<Rightarrow> 1 + occurrences ''--summary='' m) +
     occurrences ''--summary='' rest"
  by (cases rf; cases sf) (simp_all add: cmd_prefix_def flag_def occurrences_sep)

lemma cmd_str_returns:
  assumes "cmd_str C s = (Inr str, s')"
  shows "\<exists>sge_str ipq_str w1 w2.
     sge_cmd_str C (sge_opts (this s)) True True (world s) = (Inr sge_str, w1) \<and>
     ipq_cmd_str C (ipq_opts (this s)) w1 = (Inr ipq_str, w2) \<and>
     str = cmd_prefix (this s) @ flag ''--report='' (report_fn (this s)) @
           flag ''--summary='' (summary_fn (this s)) @ sge_str @ ipq_str"
  using assms by (auto simp: cmd_str_unfold split: prod.splits sum.splits)

lemma cmd_str_layout:
  assumes "cmd_str C s = (Inr str, s')"
    and "sge_cmd_str C (sge_opts (this s)) True True (world s) = (Inr sge_str, w1)"
    and "ipq_cmd_str C (ipq_opts (this s)) w1 = (Inr ipq_str, w2)"
  shows "str = cmd_prefix (this s) @ flag ''--report='' (report_fn (this s)) @
           flag ''--summary='' (summary_fn (this s)) @ sge_str @ ipq_str"
  using assms by (simp add: cmd_str_unfold)

lemma report_flag_present:
  "sublist (''--report='' @ f @ '' '')
     (cmd_prefix self @ flag ''--report='' (Some f) @ rest)"
  unfolding sublist_def flag_def
  by (rule exI[of _ "cmd_prefix self"], rule exI[of _ rest]) simp

lemma summary_flag_present:
  "sublist (''--summary='' @ f @ '' '')
     (cmd_prefix self @ flag ''--report='' rf @ flag ''--summary='' (Some f) @ rest)"
  unfolding sublist_def
  by (rule exI[of _ "cmd_prefix self @ flag ''--report='' rf"], rule exI[of _ rest])
     (simp add: flag_def)

text \<open>
  C3, as the code has it. Let the root directory, the two fofn paths and the
  concatenated serialisations of the collaborators contain neither \<open>--report=\<close> nor
  \<open>--summary=\<close>. If \<open>report_fn\<close> and \<open>summary_fn\<close> are \<open>None\<close>, the string returned by
  \<open>cmd_str\<close> contains neither flag text. If both are set to non-empty strings that
  contain neither flag text, the string has exactly one occurrence of each flag text, and
  each flag is followed by its configured path as it is and a space.
\<close>

theorem cmd_str_report_summary_flags:
  assumes "cmd_str C s = (Inr str, s')"
    and "sge_cmd_str C (sge_opts (this s)) True True (world s) = (Inr sge_str, w1)"
    and "ipq_cmd_str C (ipq_opts (this s)) w1 = (Inr ipq_str, w2)"
    and "no_flag_text (root_dir (this s))"
    and "no_flag_text (bas_fofn (this s))"
    and "no_flag_text (fasta_fofn (this s))"
    and "no_flag_text (sge_str @ ipq_str)"
  shows "(report_fn (this s) = None \<and> summary_fn (this s) = None \<longrightarrow>
            \<not> sublist ''--report='' str \<and> \<not> sublist ''--summary='' str) \<and>
         (\<forall>r m. report_fn (this s) = Some r \<and> summary_fn (this s) = Some m \<and>
                 r \<noteq> [] \<and> m \<noteq> [] \<and> no_flag_text r \<and> no_flag_text m \<longrightarrow>
            occurrences ''--report='' str = 1 \<and> occurrences ''--summary='' str = 1 \<and>
            sublist (''--report='' @ r @ '' '') str \<and>
            sublist (''--summary='' @ m @ '' '') str)"
proof -
  note lay = cmd_str_layout[OF assms(1-3)]
  have z: "occurrences ''--report='' (root_dir (this s)) = 0"
      "occurrences ''--report='' (bas_fofn (this s)) = 0"
      "occurrences ''--report='' (fasta_fofn (this s)) = 0"
      "occurrences ''--report='' (sge_str @ ipq_str) = 0"
      "occurrences ''--summary='' (root_dir (this s)) = 0"
      "occurrences ''--summary='' (bas_fofn (this s)) = 0"
      "occurrences ''--summary='' (fasta_fofn (this s)) = 0"
      "occurrences ''--summary='' (sge_str @ ipq_str) = 0"
    using assms(4-7) by (simp_all add: no_flag_text_def occurrences_0_iff)
  have none: "\<not> sublist ''--report='' str \<and> \<not> sublist ''--summary='' str"
    if "report_fn (this s) = None" "summary_fn (this s) = None"
  proof -
    have "occurrences ''--report='' str = 0" "occurrences ''--summary='' str = 0"
      unfolding lay occurrences_report occurrences_summary using that z by simp_all
    then show ?thesis by (simp add: occurrences_0_iff)
  qed
  have both: "occurrences ''--report='' str = 1 \<and> occurrences ''--summary='' str = 1 \<and>
            sublist (''--report='' @ r @ '' '') str \<and>
            sublist (''--summary='' @ m @ '' '') str"
    if "report_fn (this s) = Some r" "summary_fn (this s) = Some m"
       "no_flag_text r" "no_flag_text m" for r m
  proof -
    have "occurrences ''--report='' r = 0" "occurrences ''--report='' m = 0"
        "occurrences ''--summary='' r = 0" "occurrences ''--summary='' m = 0"
      using that by (simp_all add: no_flag_text_def occurrences_0_iff)
    then have "occurrences ''--report='' str = 1" "occurrences ''--summary='' str = 1"
      unfolding lay occurrences_report occurrences_summary using that z by simp_all
    moreover have "sublist (''--report='' @ r @ '' '') str"
      unfolding lay that by (rule report_flag_present)
    moreover have "sublist (''--summary='' @ m @ '' '') str"
      unfolding lay that by (rule summary_flag_present)
    ultimately show ?thesis by simp
  qed
  from none both show ?thesis by blast
qed

theorem cmd_str_report_summary_flags_witness:
  "cmd_str example_collaborators (start example_object_full []) =
     (Inr (''ice_quiver.py all /out --bas_fofn=bas.fofn --fasta_fofn=fa.fofn '' @
           ''--report=report.txt --summary=summary.txt '' @
           ''--blasr_nproc=4 --quiver_nproc=8 --hq_quiver_min_accuracy=0.99 ''),
      \<lparr>this = example_object_full, world = [],
       trace = [(Sge_cmd_str False True True, Returned),
                (Ipq_cmd_str ''--hq_quiver_min_accuracy=0.99 '', Returned)]\<rparr>) \<and>
   no_flag_text ''/out'' \<and> no_flag_text ''bas.fofn'' \<and> no_flag_text ''fa.fofn'' \<and>
   no_flag_text ''report.txt'' \<and> no_flag_text ''summary.txt'' \<and>
   no_flag_text (''--blasr_nproc=4 --quiver_nproc=8 '' @ ''--hq_quiver_min_accuracy=0.99 '') \<and>
   occurrences ''--report=''
     (''ice_quiver.py all /out --bas_fofn=bas.fofn --fasta_fofn=fa.fofn '' @
      ''--report=report.txt --summary=summary.txt '' @
      ''--blasr_nproc=4 --quiver_nproc=8 --hq_quiver_min_accuracy=0.99 '') = 1 \<and>
   occurrences ''--summary=''
     (''ice_quiver.py all /out --bas_fofn=bas.fofn --fasta_fofn=fa.fofn '' @
      ''--report=report.txt --summary=summary.txt '' @
      ''--blasr_nproc=4 --quiver_nproc=8 --hq_quiver_min_accuracy=0.99 '') = 1"
proof -
  let ?C = example_collaborators
  let ?s = "start example_object_full []"
  let ?str = "''ice_quiver.py all /out --bas_fofn=bas.fofn --fasta_fofn=fa.fofn '' @
      ''--report=report.txt --summary=summary.txt '' @
      ''--blasr_nproc=4 --quiver_nproc=8 --hq_quiver_min_accuracy=0.99 ''"
  have obj: "this ?s = \<lparr>root_dir = ''/out'', bas_fofn = ''bas.fofn'', fasta_fofn = ''fa.fofn'',
       report_fn = Some ''report.txt'', summary_fn = Some ''summary.txt'',
       sge_opts = False, ipq_opts = ''--hq_quiver_min_accuracy=0.99 ''\<rparr>" and w: "world ?s = []"
    by (simp_all add: start_def example_object_full_def IceQuiverAll_init_def)
  have h1: "cmd_str ?C ?s =
     (Inr ?str,
      \<lparr>this = example_object_full, world = [],
       trace = [(Sge_cmd_str False True True, Returned),
                (Ipq_cmd_str ''--hq_quiver_min_accuracy=0.99 '', Returned)]\<rparr>)"
    by (simp add: cmd_str_unfold cmd_prefix_def flag_def example_collaborators_def start_def
        example_object_full_def IceQuiverAll_init_def)
  have h2: "sge_cmd_str ?C (sge_opts (this ?s)) True True (world ?s) =
      (Inr ''--blasr_nproc=4 --quiver_nproc=8 '', [])"
    unfolding obj w by (simp add: example_collaborators_def)
  have h3: "ipq_cmd_str ?C (ipq_opts (this ?s)) [] = (Inr ''--hq_quiver_min_accuracy=0.99 '', [])"
    unfolding obj by (simp add: example_collaborators_def)
  have c1: "no_flag_text ''/out''" and c2: "no_flag_text ''bas.fofn''"
    and c3: "no_flag_text ''fa.fofn''"
    and c4: "no_flag_text (''--blasr_nproc=4 --quiver_nproc=8 '' @ ''--hq_quiver_min_accuracy=0.99 '')"
    and c5: "no_flag_text ''report.txt''" and c6: "no_flag_text ''summary.txt''"
    by (simp_all add: no_flag_text_def sublist_Cons_right)
  have r: "report_fn (this ?s) = Some ''report.txt''" "summary_fn (this ?s) = Some ''summary.txt''"
    "root_dir (this ?s) = ''/out''" "bas_fofn (this ?s) = ''bas.fofn''"
    "fasta_fofn (this ?s) = ''fa.fofn''"
    unfolding obj by simp_all
  note th = cmd_str_report_summary_flags[OF h1 h2 h3, unfolded r, OF c1 c2 c3 c4]
  from th c5 c6 have "occurrences ''--report='' ?str = 1 \<and> occurrences ''--summary='' ?str = 1"
    by blast
  with h1 c1 c2 c3 c4 c5 c6 show ?thesis by blast
qed

text \<open>
  C3 as stated fails. With root directory \<open>/out/--report=1\<close> and no report and summary
  paths, the string contains \<open>--report=\<close>; with the same root directory and both paths
  set, \<open>--report=\<close> occurs twice.
\<close>

theorem cmd_str_report_summary_flags_counterexample:
  "report_fn (IceQuiverAll_init ''/out/--report=1'' ''bas.fofn'' ''fa.fofn'' False
       ''--hq_quiver_min_accuracy=0.99 '' None None None) = None \<and>
   summary_fn (IceQuiverAll_init ''/out/--report=1'' ''bas.fofn'' ''fa.fofn'' False
       ''--hq_quiver_min_accuracy=0.99 '' None None None) = None \<and>
   fst (cmd_str example_collaborators
         (start (IceQuiverAll_init ''/out/--report=1'' ''bas.fofn'' ''fa.fofn'' False
                   ''--hq_quiver_min_accuracy=0.99 '' None None None) [])) =
     Inr (''ice_quiver.py all /out/--report=1 --bas_fofn=bas.fofn --fasta_fofn=fa.fofn '' @
          ''--blasr_nproc=4 --quiver_nproc=8 --hq_quiver_min_accuracy=0.99 '') \<and>
   sublist ''--report=''
     (''ice_quiver.py all /out/--report=1 --bas_fofn=bas.fofn --fasta_fofn=fa.fofn '' @
      ''--blasr_nproc=4 --quiver_nproc=8 --hq_quiver_min_accuracy=0.99 '') \<and>
   fst (cmd_str example_collaborators
         (start (IceQuiverAll_init ''/out/--report=1'' ''bas.fofn'' ''fa.fofn'' False
                   ''--hq_quiver_min_accuracy=0.99 '' (Some ''report.txt'') (Some ''summary.txt'')
                   None) [])) =
     Inr (''ice_quiver.py all /out/--report=1 --bas_fofn=bas.fofn --fasta_fofn=fa.fofn '' @
          ''--report=report.txt --summary=summary.txt '' @
          ''--blasr_nproc=4 --quiver_nproc=8 --hq_quiver_min_accuracy=0.99 '') \<and>
   occurrences ''--report=''
     (''ice_quiver.py all /out/--report=1 --bas_fofn=bas.fofn --fasta_fofn=fa.fofn '' @
      ''--report=report.txt --summary=summary.txt '' @
      ''--blasr_nproc=4 --quiver_nproc=8 --hq_quiver_min_accuracy=0.99 '') = 2"
  by (simp add: cmd_str_unfold cmd_prefix_def flag_def example_collaborators_def start_def
      IceQuiverAll_init_def sublist_Cons_right)

text \<open>
  C4, as the code has it. Every string \<open>cmd_str\<close> returns begins with the program name,
  then the root directory, then the \<open>--bas_fofn\<close> and \<open>--fasta_fofn\<close> flags with their
  paths, each as it is and followed by a space. For root directory \<open>/out\<close>, fofn paths
  \<open>bas.fofn\<close> and \<open>fa.fofn\<close> and no report and summary paths, the string is
  \<open>ice_quiver.py all /out --bas_fofn=bas.fofn --fasta_fofn=fa.fofn \<close> followed by the
  two serialisations, and it contains \<open>--report=\<close> (or \<open>--summary=\<close>) exactly when the
  concatenated serialisations do.
\<close>

theorem cmd_str_starts_with:
  assumes "cmd_str C s = (Inr str, s')"
  shows "prefix (prog @ root_dir (this s) @ '' '' @
                 ''--bas_fofn='' @ bas_fofn (this s) @ '' '' @
                 ''--fasta_fofn='' @ fasta_fofn (this s) @ '' '') str \<and>
         (root_dir (this s) = ''/out'' \<and> bas_fofn (this s) = ''bas.fofn'' \<and>
          fasta_fofn (this s) = ''fa.fofn'' \<and>
          report_fn (this s) = None \<and> summary_fn (this s) = None \<longrightarrow>
            prefix ''ice_quiver.py all /out --bas_fofn=bas.fofn --fasta_fofn=fa.fofn '' str \<and>
            (\<exists>sge_str ipq_str w1 w2.
               sge_cmd_str C (sge_opts (this s)) True True (world s) = (Inr sge_str, w1) \<and>
               ipq_cmd_str C (ipq_opts (this s)) w1 = (Inr ipq_str, w2) \<and>
               str = ''ice_quiver.py all /out --bas_fofn=bas.fofn --fasta_fofn=fa.fofn '' @
                     sge_str @ ipq_str \<and>
               (sublist ''--report='' str \<longleftrightarrow> sublist ''--report='' (sge_str @ ipq_str)) \<and>
               (sublist ''--summary='' str \<longleftrightarrow> sublist ''--summary='' (sge_str @ ipq_str))))"
proof -
  from cmd_str_returns[OF assms] obtain sge_str ipq_str w1 w2 where
    sge: "sge_cmd_str C (sge_opts (this s)) True True (world s) = (Inr sge_str, w1)" and
    ipq: "ipq_cmd_str C (ipq_opts (this s)) w1 = (Inr ipq_str, w2)" and
    lay: "str = cmd_prefix (this s) @ flag ''--report='' (report_fn (this s)) @
           flag ''--summary='' (summary_fn (this s)) @ sge_str @ ipq_str"
    by blast
  have 1: "prefix (prog @ root_dir (this s) @ '' '' @
                 ''--bas_fofn='' @ bas_fofn (this s) @ '' '' @
                 ''--fasta_fofn='' @ fasta_fofn (this s) @ '' '') str"
    unfolding lay by (simp add: cmd_prefix_def prog_def)
  have 2: "prefix ''ice_quiver.py all /out --bas_fofn=bas.fofn --fasta_fofn=fa.fofn '' str \<and>
            (\<exists>sge_str ipq_str w1 w2.
               sge_cmd_str C (sge_opts (this s)) True True (world s) = (Inr sge_str, w1) \<and>
               ipq_cmd_str C (ipq_opts (this s)) w1 = (Inr ipq_str, w2) \<and>
               str = ''ice_quiver.py all /out --bas_fofn=bas.fofn --fasta_fofn=fa.fofn '' @
                     sge_str @ ipq_str \<and>
               (sublist ''--report='' str \<longleftrightarrow> sublist ''--report='' (sge_str @ ipq_str)) \<and>
               (sublist ''--summary='' str \<longleftrightarrow> sublist ''--summary='' (sge_str @ ipq_str)))"
    if ex: "root_dir (this s) = ''/out''" "bas_fofn (this s) = ''bas.fofn''"
          "fasta_fofn (this s) = ''fa.fofn''"
          "report_fn (this s) = None" "summary_fn (this s) = None"
  proof -
    have eq: "str = ''ice_quiver.py all /out --bas_fofn=bas.fofn --fasta_fofn=fa.fofn '' @
                     sge_str @ ipq_str"
      unfolding lay by (simp add: cmd_prefix_def flag_def ex)
    have "occurrences ''--report='' str = occurrences ''--report='' (sge_str @ ipq_str)"
         "occurrences ''--summary='' str = occurrences ''--summary='' (sge_str @ ipq_str)"
      unfolding lay occurrences_report occurrences_summary by (simp_all add: ex)
    then have "sublist ''--report='' str \<longleftrightarrow> sublist ''--report='' (sge_str @ ipq_str)"
         "sublist ''--summary='' str \<longleftrightarrow> sublist ''--summary='' (sge_str @ ipq_str)"
      using occurrences_0_iff by metis+
    moreover have "prefix ''ice_quiver.py all /out --bas_fofn=bas.fofn --fasta_fofn=fa.fofn '' str"
      unfolding eq by simp
    ultimately show ?thesis using sge ipq eq by blast
  qed
  from 1 2 show ?thesis by blast
qed

theorem cmd_str_starts_with_witness:
  "cmd_str example_collaborators (start example_object []) =
     (Inr (''ice_quiver.py all /out --bas_fofn=bas.fofn --fasta_fofn=fa.fofn '' @
           ''--use_sge --blasr_nproc=4 --quiver_nproc=8 --hq_quiver_min_accuracy=0.99 ''),
      \<lparr>this = example_object, world = [],
       trace = [(Sge_cmd_str True True True, Returned),
                (Ipq_cmd_str ''--hq_quiver_min_accuracy=0.99 '', Returned)]\<rparr>) \<and>
   root_dir example_object = ''/out'' \<and> bas_fofn example_object = ''bas.fofn'' \<and>
   fasta_fofn example_object = ''fa.fofn'' \<and>
   report_fn example_object = None \<and> summary_fn example_object = None \<and>
   prefix ''ice_quiver.py all /out --bas_fofn=bas.fofn --fasta_fofn=fa.fofn ''
     (''ice_quiver.py all /out --bas_fofn=bas.fofn --fasta_fofn=fa.fofn '' @
      ''--use_sge --blasr_nproc=4 --quiver_nproc=8 --hq_quiver_min_accuracy=0.99 '') \<and>
   \<not> sublist ''--report=''
     (''ice_quiver.py all /out --bas_fofn=bas.fofn --fasta_fofn=fa.fofn '' @
      ''--use_sge --blasr_nproc=4 --quiver_nproc=8 --hq_quiver_min_accuracy=0.99 '') \<and>
   \<not> sublist ''--summary=''
     (''ice_quiver.py all /out --bas_fofn=bas.fofn --fasta_fofn=fa.fofn '' @
      ''--use_sge --blasr_nproc=4 --quiver_nproc=8 --hq_quiver_min_accuracy=0.99 '')"
proof -
  let ?C = example_collaborators
  let ?s = "start example_object []"
  let ?str = "''ice_quiver.py all /out --bas_fofn=bas.fofn --fasta_fofn=fa.fofn '' @
      ''--use_sge --blasr_nproc=4 --quiver_nproc=8 --hq_quiver_min_accuracy=0.99 ''"
  have h: "cmd_str ?C ?s =
     (Inr ?str,
      \<lparr>this = example_object, world = [],
       trace = [(Sge_cmd_str True True True, Returned),
                (Ipq_cmd_str ''--hq_quiver_min_accuracy=0.99 '', Returned)]\<rparr>)"
    by (simp add: cmd_str_unfold cmd_prefix_def flag_def example_collaborators_def start_def
        example_object_def IceQuiverAll_init_def)
  have o: "root_dir example_object = ''/out''" "bas_fofn example_object = ''bas.fofn''"
    "fasta_fofn example_object = ''fa.fofn''"
    "report_fn example_object = None" "summary_fn example_object = None"
    by (simp_all add: example_object_def IceQuiverAll_init_def)
  have t: "this ?s = example_object" "world ?s = []"
    by (simp_all add: start_def)
  have sge: "sge_cmd_str ?C (sge_opts example_object) True True [] =
      (Inr ''--use_sge --blasr_nproc=4 --quiver_nproc=8 '', [])"
    by (simp add: example_collaborators_def example_object_def IceQuiverAll_init_def)
  have ipq: "ipq_cmd_str ?C (ipq_opts example_object) [] =
      (Inr ''--hq_quiver_min_accuracy=0.99 '', [])"
    by (simp add: example_collaborators_def example_object_def IceQuiverAll_init_def)
  have clean: "\<not> sublist ''--report=''
        (''--use_sge --blasr_nproc=4 --quiver_nproc=8 '' @ ''--hq_quiver_min_accuracy=0.99 '')"
      "\<not> sublist ''--summary=''
        (''--use_sge --blasr_nproc=4 --quiver_nproc=8 '' @ ''--hq_quiver_min_accuracy=0.99 '')"
    by (simp_all add: sublist_Cons_right)
  from cmd_str_starts_with[OF h, unfolded t] o sge ipq clean
  have "prefix ''ice_quiver.py all /out --bas_fofn=bas.fofn --fasta_fofn=fa.fofn '' ?str \<and>
        \<not> sublist ''--report='' ?str \<and> \<not> sublist ''--summary='' ?str"
    by auto
  with h o show ?thesis by blast
qed

text \<open>
  C4 as stated fails in its last part: the configuration of the example, with HQ/LQ
  options whose serialisation names a file under a directory \<open>--report=1\<close>, gives a
  string that contains \<open>--report=\<close>.
\<close>

theorem cmd_str_starts_with_counterexample:
  "root_dir (IceQuiverAll_init ''/out'' ''bas.fofn'' ''fa.fofn'' False
       ''--hq_isoforms_fa=/out/--report=1/hq.fa '' None None None) = ''/out'' \<and>
   report_fn (IceQuiverAll_init ''/out'' ''bas.fofn'' ''fa.fofn'' False
       ''--hq_isoforms_fa=/out/--report=1/hq.fa '' None None None) = None \<and>
   summary_fn (IceQuiverAll_init ''/out'' ''bas.fofn'' ''fa.fofn'' False
       ''--hq_isoforms_fa=/out/--report=1/hq.fa '' None None None) = None \<and>
   fst (cmd_str example_collaborators
         (start (IceQuiverAll_init ''/out'' ''bas.fofn'' ''fa.fofn'' False
                   ''--hq_isoforms_fa=/out/--report=1/hq.fa '' None None None) [])) =
     Inr (''ice_quiver.py all /out --bas_fofn=bas.fofn --fasta_fofn=fa.fofn '' @
          ''--blasr_nproc=4 --quiver_nproc=8 --hq_isoforms_fa=/out/--report=1/hq.fa '') \<and>
   sublist ''--report=''
     (''ice_quiver.py all /out --bas_fofn=bas.fofn --fasta_fofn=fa.fofn '' @
      ''--blasr_nproc=4 --quiver_nproc=8 --hq_isoforms_fa=/out/--report=1/hq.fa '')"
  by (simp add: cmd_str_unfold cmd_prefix_def flag_def example_collaborators_def start_def
      IceQuiverAll_init_def sublist_Cons_right)

text \<open>
  C10, as the code has it. When \<open>report_fn\<close> is not \<open>None\<close>, the string contains
  \<open>--report=\<close> followed by the path and a space; for the empty path this is
  \<open>--report= \<close>. When the root directory, the fofn paths, the summary path (if set) and
  the concatenated serialisations do not contain \<open>--report=\<close>, the string contains
  \<open>--report=\<close> if and only if \<open>report_fn\<close> is not \<open>None\<close>. The same holds for
  \<open>summary_fn\<close> and \<open>--summary=\<close>.
\<close>

theorem cmd_str_flag_iff_set:
  assumes "cmd_str C s = (Inr str, s')"
    and "sge_cmd_str C (sge_opts (this s)) True True (world s) = (Inr sge_str, w1)"
    and "ipq_cmd_str C (ipq_opts (this s)) w1 = (Inr ipq_str, w2)"
  shows "(\<forall>f. report_fn (this s) = Some f \<longrightarrow> sublist (''--report='' @ f @ '' '') str) \<and>
         (\<forall>f. summary_fn (this s) = Some f \<longrightarrow> sublist (''--summary='' @ f @ '' '') str) \<and>
         (report_fn (this s) = Some [] \<longrightarrow> sublist ''--report= '' str) \<and>
         (summary_fn (this s) = Some [] \<longrightarrow> sublist ''--summary= '' str) \<and>
         (\<not> sublist ''--report='' (root_dir (this s)) \<and>
          \<not> sublist ''--report='' (bas_fofn (this s)) \<and>
          \<not> sublist ''--report='' (fasta_fofn (this s)) \<and>
          (\<forall>m. summary_fn (this s) = Some m \<longrightarrow> \<not> sublist ''--report='' m) \<and>
          \<not> sublist ''--report='' (sge_str @ ipq_str) \<longrightarrow>
            (sublist ''--report='' str \<longleftrightarrow> report_fn (this s) \<noteq> None)) \<and>
         (\<not> sublist ''--summary='' (root_dir (this s)) \<and>
          \<not> sublist ''--summary='' (bas_fofn (this s)) \<and>
          \<not> sublist ''--summary='' (fasta_fofn (this s)) \<and>
          (\<forall>r. report_fn (this s) = Some r \<longrightarrow> \<not> sublist ''--summary='' r) \<and>
          \<not> sublist ''--summary='' (sge_str @ ipq_str) \<longrightarrow>
            (sublist ''--summary='' str \<longleftrightarrow> summary_fn (this s) \<noteq> None))"
proof -
  note lay = cmd_str_layout[OF assms]
  have rp: "sublist (''--report='' @ f @ '' '') str" if "report_fn (this s) = Some f" for f
    unfolding lay that by (rule report_flag_present)
  have sp: "sublist (''--summary='' @ f @ '' '') str" if "summary_fn (this s) = Some f" for f
    unfolding lay that by (rule summary_flag_present)
  have re: "sublist ''--report= '' str" if "report_fn (this s) = Some []"
    using rp[OF that] by simp
  have se: "sublist ''--summary= '' str" if "summary_fn (this s) = Some []"
    using sp[OF that] by simp
  have ri: "sublist ''--report='' str \<longleftrightarrow> report_fn (this s) \<noteq> None"
    if c: "\<not> sublist ''--report='' (root_dir (this s))"
          "\<not> sublist ''--report='' (bas_fofn (this s))"
          "\<not> sublist ''--report='' (fasta_fofn (this s))"
          "\<forall>m. summary_fn (this s) = Some m \<longrightarrow> \<not> sublist ''--report='' m"
          "\<not> sublist ''--report='' (sge_str @ ipq_str)"
  proof -
    have "occurrences ''--report='' str = 0 \<longleftrightarrow> report_fn (this s) = None"
      unfolding lay occurrences_report using c
      by (auto simp: occurrences_0_iff split: option.splits)
    then show ?thesis by (auto simp: occurrences_0_iff)
  qed
  have si: "sublist ''--summary='' str \<longleftrightarrow> summary_fn (this s) \<noteq> None"
    if c: "\<not> sublist ''--summary='' (root_dir (this s))"
          "\<not> sublist ''--summary='' (bas_fofn (this s))"
          "\<not> sublist ''--summary='' (fasta_fofn (this s))"
          "\<forall>r. report_fn (this s) = Some r \<longrightarrow> \<not> sublist ''--summary='' r"
          "\<not> sublist ''--summary='' (sge_str @ ipq_str)"
  proof -
    have "occurrences ''--summary='' str = 0 \<longleftrightarrow> summary_fn (this s) = None"
      unfolding lay occurrences_summary using c
      by (auto simp: occurrences_0_iff split: option.splits)
    then show ?thesis by (auto simp: occurrences_0_iff)
  qed
  from rp sp re se ri si show ?thesis by blast
qed

theorem cmd_str_flag_iff_set_witness:
  "cmd_str example_collaborators
     (start (IceQuiverAll_init ''/out'' ''bas.fofn'' ''fa.fofn'' False
               ''--hq_quiver_min_accuracy=0.99 '' (Some []) None None) []) =
     (Inr (''ice_quiver.py all /out --bas_fofn=bas.fofn --fasta_fofn=fa.fofn --report= '' @
           ''--blasr_nproc=4 --quiver_nproc=8 --hq_quiver_min_accuracy=0.99 ''),
      \<lparr>this = IceQuiverAll_init ''/out'' ''bas.fofn'' ''fa.fofn'' False
               ''--hq_quiver_min_accuracy=0.99 '' (Some []) None None,
       world = [],
       trace = [(Sge_cmd_str False True True, Returned),
                (Ipq_cmd_str ''--hq_quiver_min_accuracy=0.99 '', Returned)]\<rparr>) \<and>
   sublist ''--report= ''
     (''ice_quiver.py all /out --bas_fofn=bas.fofn --fasta_fofn=fa.fofn --report= '' @
      ''--blasr_nproc=4 --quiver_nproc=8 --hq_quiver_min_accuracy=0.99 '') \<and>
   \<not> sublist ''--summary=''
     (''ice_quiver.py all /out --bas_fofn=bas.fofn --fasta_fofn=fa.fofn --report= '' @
      ''--blasr_nproc=4 --quiver_nproc=8 --hq_quiver_min_accuracy=0.99 '')"
proof -
  let ?C = example_collaborators
  let ?o = "IceQuiverAll_init ''/out'' ''bas.fofn'' ''fa.fofn'' False
               ''--hq_quiver_min_accuracy=0.99 '' (Some []) None None"
  let ?s = "start ?o []"
  let ?str = "''ice_quiver.py all /out --bas_fofn=bas.fofn --fasta_fofn=fa.fofn --report= '' @
      ''--blasr_nproc=4 --quiver_nproc=8 --hq_quiver_min_accuracy=0.99 ''"
  have obj: "this ?s = \<lparr>root_dir = ''/out'', bas_fofn = ''bas.fofn'', fasta_fofn = ''fa.fofn'',
       report_fn = Some [], summary_fn = None,
       sge_opts = False, ipq_opts = ''--hq_quiver_min_accuracy=0.99 ''\<rparr>" and w: "world ?s = []"
    by (simp_all add: start_def IceQuiverAll_init_def)
  have h1: "cmd_str ?C ?s =
     (Inr ?str,
      \<lparr>this = ?o, world = [],
       trace = [(Sge_cmd_str False True True, Returned),
                (Ipq_cmd_str ''--hq_quiver_min_accuracy=0.99 '', Returned)]\<rparr>)"
    by (simp add: cmd_str_unfold cmd_prefix_def flag_def example_collaborators_def start_def
        IceQuiverAll_init_def)
  have h2: "sge_cmd_str ?C (sge_opts (this ?s)) True True (world ?s) =
      (Inr ''--blasr_nproc=4 --quiver_nproc=8 '', [])"
    unfolding obj w by (simp add: example_collaborators_def)
  have h3: "ipq_cmd_str ?C (ipq_opts (this ?s)) [] = (Inr ''--hq_quiver_min_accuracy=0.99 '', [])"
    unfolding obj by (simp add: example_collaborators_def)
  have f: "report_fn (this ?s) = Some []" "summary_fn (this ?s) = None"
    "root_dir (this ?s) = ''/out''" "bas_fofn (this ?s) = ''bas.fofn''"
    "fasta_fofn (this ?s) = ''fa.fofn''"
    unfolding obj by simp_all
  have clean: "\<not> sublist ''--summary='' ''/out''" "\<not> sublist ''--summary='' ''bas.fofn''"
    "\<not> sublist ''--summary='' ''fa.fofn''" "\<not> sublist ''--summary='' []"
    "\<not> sublist ''--summary=''
        (''--blasr_nproc=4 --quiver_nproc=8 '' @ ''--hq_quiver_min_accuracy=0.99 '')"
    by (simp_all add: sublist_Cons_right)
  note th = cmd_str_flag_iff_set[OF h1 h2 h3, unfolded f]
  from th have a: "sublist ''--report= '' ?str"
    by blast
  from th clean have b: "\<not> sublist ''--summary='' ?str"
    by simp
  from h1 a b show ?thesis by blast
qed

text \<open>
  C10 as stated fails in the direction from the string to the field: with the bas fofn
  \<open>/in/--summary=1/bas.fofn\<close> and \<open>summary_fn\<close> equal to \<open>None\<close>, the string
  contains \<open>--summary=\<close>.
\<close>

theorem cmd_str_flag_iff_set_counterexample:
  "summary_fn (IceQuiverAll_init ''/out'' ''/in/--summary=1/bas.fofn'' ''fa.fofn'' False
       ''--hq_quiver_min_accuracy=0.99 '' None None None) = None \<and>
   fst (cmd_str example_collaborators
         (start (IceQuiverAll_init ''/out'' ''/in/--summary=1/bas.fofn'' ''fa.fofn'' False
                   ''--hq_quiver_min_accuracy=0.99 '' None None None) [])) =
     Inr (''ice_quiver.py all /out --bas_fofn=/in/--summary=1/bas.fofn --fasta_fofn=fa.fofn '' @
          ''--blasr_nproc=4 --quiver_nproc=8 --hq_quiver_min_accuracy=0.99 '') \<and>
   sublist ''--summary=''
     (''ice_quiver.py all /out --bas_fofn=/in/--summary=1/bas.fofn --fasta_fofn=fa.fofn '' @
      ''--blasr_nproc=4 --quiver_nproc=8 --hq_quiver_min_accuracy=0.99 '')"
  by (simp add: cmd_str_unfold cmd_prefix_def flag_def example_collaborators_def start_def
      IceQuiverAll_init_def sublist_Cons_right)

end
